theory Spec2Isabelle
  imports Complex_Main "HOL-Library.Sublist"
begin

section \<open>Strings\<close>

text \<open>
  A Go string is a sequence of bytes; it is modelled as a \<open>string\<close>, one \<open>char\<close> per byte.
  Text outside ASCII appears as its UTF-8 bytes.
\<close>

text \<open>
  \<open>strings.TrimSpace\<close> removes the leading and the trailing white space of a string, as
  defined by Unicode. The white-space runes are the six ASCII ones (tab, line feed,
  vertical tab, form feed, carriage return, space) and U+0085, U+00A0, U+1680,
  U+2000 to U+200A, U+2028, U+2029, U+202F, U+205F and U+3000; \<open>spaceRunes\<close> lists
  their UTF-8 encodings. A byte that does not start one of these encodings decodes to a
  rune that is not white space (possibly the error rune), so trimming stops there.
\<close>

definition spaceRunes :: "string list" where
  "spaceRunes =
     [[CHR 0x09], [CHR 0x0A], [CHR 0x0B], [CHR 0x0C], [CHR 0x0D], [CHR 0x20],
      [CHR 0xC2, CHR 0x85], [CHR 0xC2, CHR 0xA0],
      [CHR 0xE1, CHR 0x9A, CHR 0x80],
      [CHR 0xE2, CHR 0x80, CHR 0x80], [CHR 0xE2, CHR 0x80, CHR 0x81],
      [CHR 0xE2, CHR 0x80, CHR 0x82], [CHR 0xE2, CHR 0x80, CHR 0x83],
      [CHR 0xE2, CHR 0x80, CHR 0x84], [CHR 0xE2, CHR 0x80, CHR 0x85],
      [CHR 0xE2, CHR 0x80, CHR 0x86], [CHR 0xE2, CHR 0x80, CHR 0x87],
      [CHR 0xE2, CHR 0x80, CHR 0x88], [CHR 0xE2, CHR 0x80, CHR 0x89],
      [CHR 0xE2, CHR 0x80, CHR 0x8A],
      [CHR 0xE2, CHR 0x80, CHR 0xA8], [CHR 0xE2, CHR 0x80, CHR 0xA9],
      [CHR 0xE2, CHR 0x80, CHR 0xAF], [CHR 0xE2, CHR 0x81, CHR 0x9F],
      [CHR 0xE3, CHR 0x80, CHR 0x80]]"

definition leadingSpace :: "string \<Rightarrow> string option" where
  "leadingSpace s = find (\<lambda>p. prefix p s) spaceRunes"

definition trailingSpace :: "string \<Rightarrow> string option" where
  "trailingSpace s = find (\<lambda>p. suffix p s) spaceRunes"

lemma spaceRunes_nonempty: "p \<in> set spaceRunes \<Longrightarrow> p \<noteq> []"
  by (auto simp: spaceRunes_def)

lemma leadingSpace_Some:
  "leadingSpace s = Some p \<Longrightarrow> p \<in> set spaceRunes \<and> prefix p s"
  by (auto simp: leadingSpace_def find_Some_iff)

lemma trailingSpace_Some:
  "trailingSpace s = Some p \<Longrightarrow> p \<in> set spaceRunes \<and> suffix p s"
  by (auto simp: trailingSpace_def find_Some_iff)

function trimLeftSpace :: "string \<Rightarrow> string" where
  "trimLeftSpace s =
     (case leadingSpace s of
        None \<Rightarrow> s
      | Some p \<Rightarrow> trimLeftSpace (drop (length p) s))"
  by pat_completeness auto
termination
proof (relation "measure length")
  show "wf (measure length)" by simp
next
  fix s p assume "leadingSpace s = Some p"
  then have "p \<noteq> []" "prefix p s"
    using leadingSpace_Some spaceRunes_nonempty by blast+
  then show "(drop (length p) s, s) \<in> measure length"
    by (cases s) (auto simp: prefix_def)
qed

declare trimLeftSpace.simps [simp del]

function trimRightSpace :: "string \<Rightarrow> string" where
  "trimRightSpace s =
     (case trailingSpace s of
        None \<Rightarrow> s
      | Some p \<Rightarrow> trimRightSpace (take (length s - length p) s))"
  by pat_completeness auto
termination
proof (relation "measure length")
  show "wf (measure length)" by simp
next
  fix s p assume "trailingSpace s = Some p"
  then have "p \<noteq> []" "suffix p s"
    using trailingSpace_Some spaceRunes_nonempty by blast+
  then show "(take (length s - length p) s, s) \<in> measure length"
    by (cases s) (auto simp: suffix_def)
qed

declare trimRightSpace.simps [simp del]

definition TrimSpace :: "string \<Rightarrow> string" where
  "TrimSpace s = trimRightSpace (trimLeftSpace s)"

text \<open>A string is white when it is made of white-space runes only (the empty string is).\<close>

inductive white :: "string \<Rightarrow> bool" where
  white_Nil: "white []"
| white_rune: "p \<in> set spaceRunes \<Longrightarrow> white s \<Longrightarrow> white (p @ s)"

text \<open>
  \<open>strings.TrimRight s cutset\<close> removes every trailing byte of \<open>s\<close> that occurs in
  \<open>cutset\<close> (the program only passes the one-byte ASCII cutset \<open>"/"\<close>).
\<close>

definition TrimRight :: "string \<Rightarrow> string \<Rightarrow> string" where
  "TrimRight s cutset = rev (dropWhile (\<lambda>c. c \<in> set cutset) (rev s))"

text \<open>\<open>strings.Contains s substr\<close>: does \<open>substr\<close> occur in \<open>s\<close>?\<close>

fun Contains :: "string \<Rightarrow> string \<Rightarrow> bool" where
  "Contains [] substr = (substr = [])"
| "Contains (c # cs) substr = (prefix substr (c # cs) \<or> Contains cs substr)"

text \<open>
  \<open>json.Marshal\<close> writes a Go string as a JSON string coerced to valid UTF-8: it reads
  the string rune by rune with \<open>utf8.DecodeRuneInString\<close> and writes the replacement
  character U+FFFD (the bytes EF BF BD) in place of every byte that does not begin a valid
  encoding. Everything else it writes, escaped or not, a reader of the JSON text reads
  back as it was. \<open>jsonString s\<close> is the string that such a reader finds for \<open>s\<close>.

  The decoder is that of the package \<open>unicode/utf8\<close>. A byte below 0x80 is a rune of its
  own. Otherwise the first byte fixes the length of the encoding (two to four bytes) and
  the range in which the second byte must lie; the third and the fourth byte lie
  between 0x80 and 0xBF. The first bytes C0, C1 and F5 to FF, and a continuation byte
  in first place, begin no encoding; the ranges of the second byte exclude the overlong
  forms, the surrogates and the values above U+10FFFF. \<open>runeLen s\<close> is the length of the
  encoding that \<open>s\<close> begins with, and 0 when it begins with none. \<open>ValidString\<close> is
  \<open>utf8.ValidString\<close>.
\<close>

definition byte :: "char \<Rightarrow> nat" where
  "byte c = of_char c"

definition leadByte :: "char \<Rightarrow> (nat \<times> nat \<times> nat) option" where
  "leadByte c =
     (let x = byte c
      in if 0xC2 \<le> x \<and> x \<le> 0xDF then Some (2, 0x80, 0xBF)
         else if x = 0xE0 then Some (3, 0xA0, 0xBF)
         else if 0xE1 \<le> x \<and> x \<le> 0xEC then Some (3, 0x80, 0xBF)
         else if x = 0xED then Some (3, 0x80, 0x9F)
         else if 0xEE \<le> x \<and> x \<le> 0xEF then Some (3, 0x80, 0xBF)
         else if x = 0xF0 then Some (4, 0x90, 0xBF)
         else if 0xF1 \<le> x \<and> x \<le> 0xF3 then Some (4, 0x80, 0xBF)
         else if x = 0xF4 then Some (4, 0x80, 0x8F)
         else None)"

fun continuation :: "nat \<Rightarrow> string \<Rightarrow> bool" where
  "continuation 0 s = True"
| "continuation (Suc n) [] = False"
| "continuation (Suc n) (c # s) = (0x80 \<le> byte c \<and> byte c \<le> 0xBF \<and> continuation n s)"

fun runeLen :: "string \<Rightarrow> nat" where
  "runeLen [] = 0"
| "runeLen (c # s) =
     (if byte c < 0x80 then 1
      else case leadByte c of
             None \<Rightarrow> 0
           | Some (n, lo, hi) \<Rightarrow>
               (case s of
                  [] \<Rightarrow> 0
                | c1 # s1 \<Rightarrow>
                    if lo \<le> byte c1 \<and> byte c1 \<le> hi \<and> continuation (n - 2) s1 then n
                    else 0))"

function jsonString :: "string \<Rightarrow> string" where
  "jsonString s =
     (if s = [] then []
      else if runeLen s = 0 then [CHR 0xEF, CHR 0xBF, CHR 0xBD] @ jsonString (tl s)
      else take (runeLen s) s @ jsonString (drop (runeLen s) s))"
  by pat_completeness auto
termination
  by (relation "measure length") (auto simp: neq_Nil_conv)

declare jsonString.simps [simp del]

function ValidString :: "string \<Rightarrow> bool" where
  "ValidString s =
     (if s = [] then True
      else if runeLen s = 0 then False
      else ValidString (drop (runeLen s) s))"
  by pat_completeness auto
termination
  by (relation "measure length") (auto simp: neq_Nil_conv)

declare ValidString.simps [simp del]

text \<open>\<open>asciiHead t\<close>: the string \<open>t\<close> is empty or begins with a byte below 0x80.\<close>

definition asciiHead :: "string \<Rightarrow> bool" where
  "asciiHead t = (case t of [] \<Rightarrow> True | c # r \<Rightarrow> byte c < 0x80)"


section \<open>Data model\<close>

text \<open>
  A \<open>float64\<close> is either a finite number, given by the real number it denotes, or one of
  the three special values. \<open>json.Marshal\<close> refuses the special values.
\<close>

datatype float64 = Finite real | PosInf | NegInf | NaN

record chatMessage =
  Role :: string
  Content :: string

record chatRequest =
  Model :: string
  Messages :: "chatMessage list"
  Temperature :: float64

record chatChoice =
  Message :: chatMessage

record chatResponse =
  Choices :: "chatChoice list"

text \<open>The errors of the program, one constructor for each \<open>fmt.Errorf\<close> of the source.\<close>

datatype error =
    GitShowFailed            \<comment> \<open>failed to run git show: ...\<close>
  | EmptyGitShow             \<comment> \<open>empty git show output\<close>
  | LoadModelFailed string   \<comment> \<open>failed to load model: (output)\<close>
  | StartServerFailed string \<comment> \<open>failed to start server: (output)\<close>
  | WaitTimedOut string      \<comment> \<open>timed out waiting for LM Studio server at (base URL)\<close>
  | CLIUnavailable           \<comment> \<open>LM Studio is not running and `lms` CLI is not available;
                                 please install LM Studio CLI or start the server manually\<close>
  | MarshalFailed            \<comment> \<open>failed to marshal request: ...\<close>
  | CreateRequestFailed      \<comment> \<open>failed to create HTTP request: ...\<close>
  | RequestFailed            \<comment> \<open>API request failed: ...\<close>
  | APIError nat string      \<comment> \<open>API error: status (code), body: (body)\<close>
  | DecodeFailed             \<comment> \<open>failed to decode response: ...\<close>
  | MissingContent           \<comment> \<open>invalid response: missing choices[0].message.content\<close>
  | EnvCmdEmpty              \<comment> \<open>LM_STUDIO_CMD is set but empty\<close>
  | StartManuallyOnWindows   \<comment> \<open>LM Studio is not running; start it manually on Windows\<close>
  | StartFailed              \<comment> \<open>failed to start LM Studio: ...\<close>
  | ReachTimedOut string     \<comment> \<open>timed out waiting for LM Studio to become reachable at (base URL)\<close>
  | ModelNotSet              \<comment> \<open>LMSTUDIO_MODEL is not set\<close>

section \<open>The environment of a run\<close>

text \<open>
  What an HTTP call comes back with: an error of the transport (connection refused, the
  client's timeout, ...) or a response with its status code and body.
\<close>

datatype http_reply = NetError | Response nat string

text \<open>
  What running a subprocess to its end gives: whether the call returned an error (the
  program could not be started or exited non-zero), the output the caller captured, and
  what the process wrote to its standard error.
\<close>

record exec_result =
  failed :: bool
  out :: string
  diag :: string

text \<open>
  Everything the program observes and does is recorded, in order, in a trace. An event
  of a call to the outside carries what came back. The request of a \<open>Post\<close> event is the
  body that went out, as a reader of its JSON text finds it.
\<close>

datatype event =
    Stdout string
  | Stderr string
  | Get string http_reply
  | Post string "(string \<times> string) list" chatRequest http_reply
  | Exec "string list" exec_result
  | Start "string list" bool
  | Sleep nat
  | Fatal error

text \<open>
  The world answers the program's calls. Its answers may change from call to call: they
  are indexed by the number of events that precede the call. A blocking call also takes
  time, in nanoseconds (the unit of \<open>time.Duration\<close>): \<open>command\<close> gives the result of
  running a subprocess and the time that takes when no deadline cuts it short, and
  \<open>late\<close> gives what becomes of a call that reads the output of its process and is
  still waiting when its context expires (see \<open>outputCommandContext\<close> below). The
  library functions
  \<open>strconv.ParseFloat\<close>, the JSON decoder and the URL check of \<open>http.NewRequest\<close>
  are not part of the program and are parameters of the model too.
\<close>

record world =
  Getenv :: "string \<Rightarrow> string"
  GOOS :: string
  ParseFloat :: "string \<Rightarrow> float64 option"
  Decode :: "string \<Rightarrow> chatResponse option"
  NewRequestOK :: "string \<Rightarrow> bool"
  httpGet :: "nat \<Rightarrow> string \<Rightarrow> http_reply \<times> nat"
  httpPost :: "nat \<Rightarrow> string \<Rightarrow> (string \<times> string) list \<Rightarrow> chatRequest \<Rightarrow> http_reply \<times> nat"
  command :: "nat \<Rightarrow> string list \<Rightarrow> exec_result \<times> nat"
  late :: "nat \<Rightarrow> string list \<Rightarrow> exec_result \<times> nat"
  cmdStart :: "nat \<Rightarrow> string list \<Rightarrow> bool"

text \<open>
  The state of a run: the clock (nanoseconds) and the trace so far. The clock moves in
  blocking calls only: by the time a call to the outside takes and by the length of a
  sleep.
\<close>

record sys =
  now :: nat
  trace :: "event list"

definition Second :: nat where
  "Second = 1000000000"

definition emit :: "event \<Rightarrow> sys \<Rightarrow> sys" where
  "emit e s = s\<lparr>trace := trace s @ [e]\<rparr>"

definition advance :: "nat \<Rightarrow> sys \<Rightarrow> sys" where
  "advance d s = s\<lparr>now := now s + d\<rparr>"

text \<open>\<open>fmt.Println\<close> of one string.\<close>

definition Println :: "string \<Rightarrow> sys \<Rightarrow> sys" where
  "Println x s = emit (Stdout (x @ [CHR 0x0A])) s"

text \<open>\<open>time.Sleep\<close>.\<close>

definition sleep :: "nat \<Rightarrow> sys \<Rightarrow> sys" where
  "sleep d s = advance d (emit (Sleep d) s)"

text \<open>
  \<open>client.Get\<close> of an \<open>http.Client\<close> with the given \<open>Timeout\<close>: a reply that does not
  arrive before the timeout is an error, returned when the timeout expires.
\<close>

definition clientGet :: "world \<Rightarrow> nat \<Rightarrow> string \<Rightarrow> sys \<Rightarrow> http_reply \<times> sys" where
  "clientGet w timeout url s =
     (let (r, d) = httpGet w (length (trace s)) url;
          r' = (if d < timeout then r else NetError)
      in (r', advance (min d timeout) (emit (Get url r') s)))"

text \<open>\<open>client.Do\<close> of a POST request, likewise.\<close>

definition clientPost ::
  "world \<Rightarrow> nat \<Rightarrow> string \<Rightarrow> (string \<times> string) list \<Rightarrow> chatRequest \<Rightarrow> sys \<Rightarrow> http_reply \<times> sys" where
  "clientPost w timeout url hdrs body s =
     (let (r, d) = httpPost w (length (trace s)) url hdrs body;
          r' = (if d < timeout then r else NetError)
      in (r', advance (min d timeout) (emit (Post url hdrs body r') s)))"

text \<open>
  Running a command made by \<open>exec.Command\<close> to its end: there is no deadline, the call
  lasts as long as the process does.
\<close>

definition runCommand :: "world \<Rightarrow> string list \<Rightarrow> sys \<Rightarrow> exec_result \<times> sys" where
  "runCommand w argv s =
     (let (r, d) = command w (length (trace s)) argv
      in (r, advance d (emit (Exec argv r) s)))"

text \<open>
  \<open>cmd.Run\<close> of a command made by \<open>exec.CommandContext\<close> with a context that expires
  after \<open>timeout\<close>, the output of the process not being read: a process still running
  at the deadline is killed and the call returns an error.
\<close>

definition runCommandContext :: "world \<Rightarrow> nat \<Rightarrow> string list \<Rightarrow> sys \<Rightarrow> exec_result \<times> sys" where
  "runCommandContext w timeout argv s =
     (let (r, d) = command w (length (trace s)) argv;
          r' = (if d < timeout then r else r\<lparr>failed := True\<rparr>)
      in (r', advance (min d timeout) (emit (Exec argv r') s)))"

text \<open>
  \<open>cmd.Output\<close> and \<open>cmd.CombinedOutput\<close> of a command made by \<open>exec.CommandContext\<close>
  with a context that expires after \<open>timeout\<close>: the caller reads the output of the
  process through a pipe, and the call returns once the process has ended and the pipe
  is closed. When that happens before the deadline, the call is that of a command
  without a deadline. Otherwise a process still running at the deadline is killed, but
  the call goes on waiting for the pipe, which a descendant of the process may hold
  open (the program sets no \<open>WaitDelay\<close>): the call may outlast its context by any
  amount of time. The world says, with \<open>late\<close>, what the call returns then (an error
  when the process was killed, the result of the process when it had ended by itself
  and only its output was still open) and how long after the deadline.
\<close>

definition outputCommandContext :: "world \<Rightarrow> nat \<Rightarrow> string list \<Rightarrow> sys \<Rightarrow> exec_result \<times> sys" where
  "outputCommandContext w timeout argv s =
     (let (r, d) = command w (length (trace s)) argv;
          (r', x) = late w (length (trace s)) argv
      in if d < timeout then (r, advance d (emit (Exec argv r) s))
         else (r', advance (timeout + x) (emit (Exec argv r') s)))"

section \<open>The commit reader (internal/git)\<close>

definition GetLatestCommit :: "world \<Rightarrow> sys \<Rightarrow> (error + string) \<times> sys" where
  "GetLatestCommit w s =
     (let (r, s1) = runCommand w [''git'', ''show'', ''--stat'', ''--patch'', ''HEAD''] s;
          s2 = emit (Stderr (diag r)) s1
      in if failed r then (Inl GitShowFailed, s2)
         else let commitText = TrimSpace (out r)
              in if commitText = [] then (Inl EmptyGitShow, s2)
                 else (Inr commitText, s2))"

section \<open>The explanation client (internal/llm)\<close>

definition defaultBaseURL :: string where
  "defaultBaseURL = ''http://localhost:1234/v1''"

definition defaultModel :: string where
  "defaultModel = ''qwen/qwen3-4b-2507''"

definition defaultAPIKey :: string where
  "defaultAPIKey = ''lm-studio''"

definition StatusOK :: nat where
  "StatusOK = 200"

definition IsRunning :: "world \<Rightarrow> string \<Rightarrow> sys \<Rightarrow> bool \<times> sys" where
  "IsRunning w baseURL s =
     (let baseURL' = (if baseURL = [] then defaultBaseURL else baseURL);
          endpoint = TrimRight baseURL' ''/'' @ ''/models'';
          (resp, s1) = clientGet w (5 * Second) endpoint s
      in case resp of
           NetError \<Rightarrow> (False, s1)
         | Response status body \<Rightarrow> (status = StatusOK, s1))"


text \<open>\<open>isLMSCLIAvailable\<close>: does \<open>lms version\<close> run without error within 2 seconds?\<close>

definition isLMSCLIAvailable :: "world \<Rightarrow> sys \<Rightarrow> bool \<times> sys" where
  "isLMSCLIAvailable w s =
     (let (r, s1) = runCommandContext w (2 * Second) [''lms'', ''version''] s
      in (\<not> failed r, s1))"

definition isModelLoaded :: "world \<Rightarrow> string \<Rightarrow> sys \<Rightarrow> bool \<times> sys" where
  "isModelLoaded w modelID s =
     (let (r, s1) = outputCommandContext w (3 * Second) [''lms'', ''ps''] s
      in if failed r then (False, s1)
         else (Contains (out r) modelID, s1))"

definition loadModel :: "world \<Rightarrow> string \<Rightarrow> sys \<Rightarrow> (error + unit) \<times> sys" where
  "loadModel w modelID s =
     (let s0 = emit (Stdout (''Loading model: '' @ modelID @ ''...'' @ [CHR 0x0A])) s;
          (r, s1) = outputCommandContext w (60 * Second) [''lms'', ''load'', modelID] s0
      in if failed r then (Inl (LoadModelFailed (out r)), s1)
         else (Inr (), Println ''Model loaded successfully'' s1))"

definition startServerWithCLI :: "world \<Rightarrow> sys \<Rightarrow> (error + unit) \<times> sys" where
  "startServerWithCLI w s =
     (let s0 = Println ''Starting LM Studio server with `lms server start`...'' s;
          (r, s1) = runCommand w [''lms'', ''server'', ''start''] s0
      in if failed r then (Inl (StartServerFailed (out r)), s1)
         else (Inr (), s1))"

lemma clientGet_now: "now s \<le> now (snd (clientGet w t url s))"
  by (simp add: clientGet_def advance_def emit_def split: prod.splits)

lemma IsRunning_now: "now s \<le> now (snd (IsRunning w baseURL s))"
proof -
  have "snd (IsRunning w baseURL s) =
          snd (clientGet w (5 * Second)
                 (TrimRight (if baseURL = [] then defaultBaseURL else baseURL) ''/'' @ ''/models'') s)"
    by (simp add: IsRunning_def Let_def split: prod.splits http_reply.splits)
  then show ?thesis
    by (simp add: clientGet_now)
qed

text \<open>
  The loop of \<open>waitForServer\<close>: while the clock is before the deadline, probe; return on
  a successful probe, otherwise sleep one second and go round again.
\<close>

function waitLoop :: "world \<Rightarrow> string \<Rightarrow> nat \<Rightarrow> sys \<Rightarrow> (error + unit) \<times> sys" where
  "waitLoop w baseURL deadline s =
     (if now s < deadline then
        (case IsRunning w baseURL s of
           (True, s1) \<Rightarrow> (Inr (), Println ''LM Studio server is ready'' s1)
         | (False, s1) \<Rightarrow> waitLoop w baseURL deadline (sleep (1 * Second) s1))
      else (Inl (WaitTimedOut baseURL), s))"
  by pat_completeness auto
termination
proof (relation "measure (\<lambda>(w, baseURL, deadline, s). deadline - now s)")
  show "wf (measure (\<lambda>(w, baseURL, deadline, s). deadline - now s))" by simp
next
  fix w baseURL deadline s x s1
  assume lt: "now s < deadline" and x: "(x, s1) = IsRunning w baseURL s"
  from x have "s1 = snd (IsRunning w baseURL s)"
    by (metis snd_conv)
  then have "now s \<le> now s1"
    by (simp add: IsRunning_now)
  then have "now s < now (sleep (1 * Second) s1)"
    by (simp add: sleep_def advance_def emit_def Second_def)
  with lt show "((w, baseURL, deadline, sleep (1 * Second) s1), (w, baseURL, deadline, s))
        \<in> measure (\<lambda>(w, baseURL, deadline, s). deadline - now s)"
    by simp
qed

declare waitLoop.simps [simp del]

definition waitForServer :: "world \<Rightarrow> string \<Rightarrow> nat \<Rightarrow> sys \<Rightarrow> (error + unit) \<times> sys" where
  "waitForServer w baseURL timeout s =
     (let s0 = Println ''Waiting for LM Studio server...'' s;
          deadline = now s0 + timeout
      in waitLoop w baseURL deadline s0)"

text \<open>\<open>StartLMStudio\<close> of internal/llm/client.go.\<close>

definition StartLMStudio :: "world \<Rightarrow> sys \<Rightarrow> (error + unit) \<times> sys" where
  "StartLMStudio w s =
     (case IsRunning w defaultBaseURL s of
        (True, s1) \<Rightarrow>
          (case isLMSCLIAvailable w s1 of
             (True, s2) \<Rightarrow>
               (case isModelLoaded w defaultModel s2 of
                  (False, s3) \<Rightarrow>
                    (case loadModel w defaultModel (Println ''Model is not loaded'' s3) of
                       (Inl e, s4) \<Rightarrow> (Inl e, s4)
                     | (Inr u, s4) \<Rightarrow> (Inr (), s4))
                | (True, s3) \<Rightarrow> (Inr (), s3))
           | (False, s2) \<Rightarrow> (Inr (), s2))
      | (False, s1) \<Rightarrow>
          (case isLMSCLIAvailable w (Println ''LM Studio server is not running'' s1) of
             (True, s2) \<Rightarrow>
               (case startServerWithCLI w s2 of
                  (Inl e, s3) \<Rightarrow> (Inl e, s3)
                | (Inr u, s3) \<Rightarrow>
                    (case waitForServer w defaultBaseURL (30 * Second) s3 of
                       (Inl e, s4) \<Rightarrow> (Inl e, s4)
                     | (Inr u, s4) \<Rightarrow>
                         (case isModelLoaded w defaultModel s4 of
                            (False, s5) \<Rightarrow>
                              (case loadModel w defaultModel s5 of
                                 (Inl e, s6) \<Rightarrow> (Inl e, s6)
                               | (Inr u, s6) \<Rightarrow> (Inr (), s6))
                          | (True, s5) \<Rightarrow> (Inr (), s5))))
           | (False, s2) \<Rightarrow> (Inl CLIUnavailable, s2)))"


text \<open>
  \<open>fmt.Sprintf format a\<close> for a format whose only verb is one \<open>%s\<close> and a string
  operand \<open>a\<close>: the operand replaces the verb, byte for byte.
\<close>

fun Sprintf :: "string \<Rightarrow> string \<Rightarrow> string" where
  "Sprintf (c # d # cs) a =
     (if c = CHR ''%'' \<and> d = CHR ''s'' then a @ cs else c # Sprintf (d # cs) a)"
| "Sprintf cs a = cs"

definition systemPrompt :: string where
  "systemPrompt = TrimSpace (
     ''\<newline>'' @
     ''You are a senior software engineer explaining a Git commit to a teammate.\<newline>'' @
     ''\<newline>'' @
     ''Rules:\<newline>'' @
     ''- Give a short high-level summary first (1'' @
     [CHR 0xC3, CHR 0xA2, CHR 0xE2, CHR 0x82, CHR 0xAC, CHR 0xE2, CHR 0x80, CHR 0x9C] @
     ''3 bullet points).\<newline>'' @
     ''- Then describe the main code changes grouped by concern (e.g. '' @ [CHR 0x22] @ ''API'' @ [CHR 0x22] @ '', '' @ [CHR 0x22] @ ''UI'' @ [CHR 0x22] @ '', '' @ [CHR 0x22] @ ''tests'' @ [CHR 0x22] @ '').\<newline>'' @
     ''- Explain WHY the changes might have been made (best-effort inference).\<newline>'' @
     ''- Keep it concise but clear. No more than about 20 lines total.\<newline>'')"

definition userPrompt :: "string \<Rightarrow> string" where
  "userPrompt commitText = Sprintf (TrimSpace (
     ''\<newline>'' @
     ''Here is the latest commit on the current branch:\<newline>'' @
     ''\<newline>'' @
     ''%s\<newline>'' @
     ''\<newline>'' @
     ''Explain this commit following the rules.\<newline>'')) commitText"

text \<open>
  The sampling temperature: 0.2 unless \<open>EXPLAIN_TEMPERATURE\<close> is set to a value that
  \<open>strconv.ParseFloat\<close> accepts.
\<close>

definition temperature :: "world \<Rightarrow> float64" where
  "temperature w =
     (let tStr = Getenv w ''EXPLAIN_TEMPERATURE''
      in if tStr \<noteq> [] then
           (case ParseFloat w tStr of
              Some tParsed \<Rightarrow> tParsed
            | None \<Rightarrow> Finite 0.2)
         else Finite 0.2)"

text \<open>
  \<open>json.Marshal\<close> of a request fails exactly when the temperature is not finite (an
  infinity or a NaN has no JSON form).
\<close>

fun isFinite :: "float64 \<Rightarrow> bool" where
  "isFinite (Finite x) = True"
| "isFinite t = False"

definition marshals :: "chatRequest \<Rightarrow> bool" where
  "marshals req = isFinite (Temperature req)"

text \<open>
  When it succeeds, \<open>json.Marshal\<close> returns the JSON text of the request. \<open>Marshal req\<close>
  is the request that a reader finds in this text: every string of \<open>req\<close> coerced to
  valid UTF-8, the temperature as it is.
\<close>

definition Marshal :: "chatRequest \<Rightarrow> chatRequest" where
  "Marshal req =
     \<lparr>Model = jsonString (Model req),
      Messages = map (\<lambda>m. \<lparr>Role = jsonString (Role m), Content = jsonString (Content m)\<rparr>)
                   (Messages req),
      Temperature = Temperature req\<rparr>"

text \<open>
  The exchange with the server, from \<open>json.Marshal\<close> to the end of \<open>ExplainCommit\<close>:
  marshal the request, POST it to the chat-completions endpoint with the bearer token,
  and read the reply. Every version of the function carries this same text.
\<close>

definition sendChat ::
  "world \<Rightarrow> string \<Rightarrow> string \<Rightarrow> chatRequest \<Rightarrow> sys \<Rightarrow> (error + string) \<times> sys" where
  "sendChat w baseURL apiKey reqBody s =
     (if \<not> marshals reqBody then (Inl MarshalFailed, s)
      else
        (let payload = Marshal reqBody;
             url = TrimRight baseURL ''/'' @ ''/chat/completions''
         in if \<not> NewRequestOK w url then (Inl CreateRequestFailed, s)
            else
              (case clientPost w (60 * Second) url
                      [(''Content-Type'', ''application/json''),
                       (''Authorization'', ''Bearer '' @ apiKey)] payload s of
                 (NetError, s1) \<Rightarrow> (Inl RequestFailed, s1)
               | (Response status body, s1) \<Rightarrow>
                   if status \<noteq> StatusOK then (Inl (APIError status body), s1)
                   else
                     (case Decode w body of
                        None \<Rightarrow> (Inl DecodeFailed, s1)
                      | Some chatResp \<Rightarrow>
                          (case Choices chatResp of
                             [] \<Rightarrow> (Inl MissingContent, s1)
                           | c # cs \<Rightarrow>
                               if Content (Message c) = [] then (Inl MissingContent, s1)
                               else (Inr (TrimSpace (Content (Message c))), s1))))))"

text \<open>\<open>ExplainCommit\<close> of internal/llm/client.go.\<close>

definition ExplainCommit :: "world \<Rightarrow> string \<Rightarrow> sys \<Rightarrow> (error + string) \<times> sys" where
  "ExplainCommit w commitText s =
     (let baseURL = defaultBaseURL;
          model = defaultModel;
          apiKey = defaultAPIKey
      in case StartLMStudio w s of
           (Inl e, s1) \<Rightarrow> (Inl e, s1)
         | (Inr u, s1) \<Rightarrow>
             sendChat w baseURL apiKey
               \<lparr>Model = model,
                Messages = [\<lparr>Role = ''system'', Content = systemPrompt\<rparr>,
                            \<lparr>Role = ''user'', Content = userPrompt commitText\<rparr>],
                Temperature = temperature w\<rparr> s1)"

section \<open>Earlier versions\<close>

text \<open>
  The repository also holds earlier versions of the program. The single-file program
  (main.go) reads the commit and runs its \<open>main\<close> as above, but its \<open>explainCommit\<close>
  resolves its configuration from the environment and does not look for the server
  before it sends the request. Its system prompt differs from the later one in the bytes
  of the dash of ``1-3''. The other versions of \<open>ExplainCommit\<close> have the text of the one
  above, except for the way they make sure that the server is up: by one probe, or by
  the earlier \<open>StartLMStudio\<close> below.
\<close>

definition systemPrompt0 :: string where
  "systemPrompt0 = TrimSpace (
     ''\<newline>'' @
     ''You are a senior software engineer explaining a Git commit to a teammate.\<newline>'' @
     ''\<newline>'' @
     ''Rules:\<newline>'' @
     ''- Give a short high-level summary first (1'' @
     [CHR 0xE2, CHR 0x80, CHR 0x93] @
     ''3 bullet points).\<newline>'' @
     ''- Then describe the main code changes grouped by concern (e.g. '' @ [CHR 0x22] @ ''API'' @ [CHR 0x22] @ '', '' @ [CHR 0x22] @ ''UI'' @ [CHR 0x22] @ '', '' @ [CHR 0x22] @ ''tests'' @ [CHR 0x22] @ '').\<newline>'' @
     ''- Explain WHY the changes might have been made (best-effort inference).\<newline>'' @
     ''- Keep it concise but clear. No more than about 20 lines total.\<newline>'')"

definition explainCommit :: "world \<Rightarrow> string \<Rightarrow> sys \<Rightarrow> (error + string) \<times> sys" where
  "explainCommit w commitText s =
     (let model = Getenv w ''LMSTUDIO_MODEL''
      in if model = [] then (Inl ModelNotSet, s)
         else
           (let baseURL = (if Getenv w ''LMSTUDIO_BASE_URL'' = [] then ''http://localhost:1234/v1''
                           else Getenv w ''LMSTUDIO_BASE_URL'');
                apiKey = (if Getenv w ''LMSTUDIO_API_KEY'' = [] then ''lm-studio''
                          else Getenv w ''LMSTUDIO_API_KEY'')
            in sendChat w baseURL apiKey
                 \<lparr>Model = model,
                  Messages = [\<lparr>Role = ''system'', Content = systemPrompt0\<rparr>,
                              \<lparr>Role = ''user'', Content = userPrompt commitText\<rparr>],
                  Temperature = temperature w\<rparr> s))"

text \<open>
  \<open>strings.Fields\<close>: the maximal runs of bytes between white space.
\<close>

function fieldsFrom :: "string \<Rightarrow> string \<Rightarrow> string list" where
  "fieldsFrom cur s =
     (if s = [] then (if cur = [] then [] else [cur])
      else
        (case leadingSpace s of
           Some p \<Rightarrow> (if cur = [] then [] else [cur]) @ fieldsFrom [] (drop (length p) s)
         | None \<Rightarrow> fieldsFrom (cur @ [hd s]) (tl s)))"
  by pat_completeness auto
termination
proof (relation "measure (\<lambda>(cur, s). length s)")
  show "wf (measure (\<lambda>(cur, s). length s))" by simp
next
  fix cur s p assume "s \<noteq> []" "leadingSpace s = Some p"
  then have "p \<noteq> []"
    using leadingSpace_Some spaceRunes_nonempty by blast
  with \<open>s \<noteq> []\<close> show "(([], drop (length p) s), (cur, s)) \<in> measure (\<lambda>(cur, s). length s)"
    by simp
next
  fix cur s assume "s \<noteq> []"
  then show "((cur @ [hd s], tl s), (cur, s)) \<in> measure (\<lambda>(cur, s). length s)"
    by simp
qed

declare fieldsFrom.simps [simp del]

definition Fields :: "string \<Rightarrow> string list" where
  "Fields s = fieldsFrom [] s"

text \<open>
  The earlier \<open>StartLMStudio\<close> (the one that launches the application), up to and
  including \<open>cmd.Start\<close>: probe the server; if it does not answer, choose the command
  (from \<open>LM_STUDIO_CMD\<close>, or by platform) and start it without waiting for it to end.
  The outcome says whether the function returns at once or goes on to wait for the
  server; that wait (a one-second ticker against a 30-second timer) is not part of this
  definition.
\<close>

datatype launch = AlreadyRunning | Launched | Failed error

definition StartLMStudio_launch :: "world \<Rightarrow> sys \<Rightarrow> launch \<times> sys" where
  "StartLMStudio_launch w s =
     (case IsRunning w defaultBaseURL s of
        (True, s1) \<Rightarrow> (AlreadyRunning, s1)
      | (False, s1) \<Rightarrow>
          (let envCmd = TrimSpace (Getenv w ''LM_STUDIO_CMD'')
           in case (if envCmd \<noteq> [] then
                      (let parts = Fields envCmd
                       in if length parts = 0 then Inl EnvCmdEmpty else Inr parts)
                    else if GOOS w = ''darwin'' then Inr [''open'', ''-a'', ''LM Studio'']
                    else if GOOS w = ''windows'' then Inl StartManuallyOnWindows
                    else Inr [''lmstudio'']) of
                Inl e \<Rightarrow> (Failed e, s1)
              | Inr argv \<Rightarrow>
                  (let ok = cmdStart w (length (trace s1)) argv;
                       s2 = emit (Start argv ok) s1
                   in if \<not> ok then (Failed StartFailed, s2) else (Launched, s2))))"

section \<open>The command (main)\<close>

text \<open>\<open>%d\<close> of a length: the decimal digits of a natural number.\<close>

fun decimal :: "nat \<Rightarrow> string" where
  "decimal n = (if n < 10 then [char_of (48 + n)]
                else decimal (n div 10) @ [char_of (48 + n mod 10)])"

declare decimal.simps [simp del]

definition usage :: string where
  "usage =
     ''explain-commit - explain the latest Git commit using LM Studio\<newline>'' @
     ''\<newline>'' @
     ''Usage:\<newline>'' @
     ''  explain-commit [--raw]\<newline>'' @
     ''\<newline>'' @
     ''Options:\<newline>'' @
     ''  --raw   Print the raw git show output and exit''"

text \<open>
  \<open>main\<close> with \<open>os.Args = args\<close>; the result is the exit status of the process.
  \<open>log.Fatalf\<close> writes the error and exits with status 1.
\<close>

definition main :: "world \<Rightarrow> string list \<Rightarrow> sys \<Rightarrow> nat \<times> sys" where
  "main w args s =
     (if length args > 1 \<and> (args ! 1 = ''--help'' \<or> args ! 1 = ''-h'') then
        (0, Println usage s)
      else
        (case GetLatestCommit w
                (Println ([CHR 0xF0, CHR 0x9F, CHR 0x94, CHR 0x8D] @
                          '' Reading latest commit (git show HEAD)...'') s) of
           (Inl e, s1) \<Rightarrow> (1, emit (Fatal e) s1)
         | (Inr commitText, s1) \<Rightarrow>
             if length args > 1 \<and> args ! 1 = ''--raw'' then
               (0, Println commitText (Println ''----- RAW COMMIT -----'' s1))
             else
               (let s2 = emit (Stdout ([CHR 0xE2, CHR 0x9C, CHR 0x93] @ '' Got commit ('' @
                                       decimal (length commitText) @ '' characters)'' @
                                       [CHR 0x0A])) s1;
                    s3 = Println ([CHR 0xF0, CHR 0x9F, CHR 0xA7, CHR 0xA0] @
                                  '' Asking LM Studio to explain the commit...'') s2
                in case ExplainCommit w commitText s3 of
                     (Inl e, s4) \<Rightarrow> (1, emit (Fatal e) s4)
                   | (Inr explanation, s4) \<Rightarrow>
                       (0, Println explanation
                             (Println ([CHR 0x0A, CHR 0xF0, CHR 0x9F, CHR 0x93, CHR 0x84] @
                                       '' Explanation:'') s4)))))"


section \<open>Sample worlds\<close>

text \<open>
  Concrete worlds and a start state, to run the definitions on. \<open>probeWorld r d\<close> answers
  every probe with \<open>r\<close> after \<open>d\<close> nanoseconds and has no working command;
  \<open>gitWorld r\<close> is a world whose commands all end with \<open>r\<close>.
\<close>

definition start0 :: sys where
  "start0 = \<lparr>now = 0, trace = []\<rparr>"

definition probeWorld :: "http_reply \<Rightarrow> nat \<Rightarrow> world" where
  "probeWorld r d =
     \<lparr>Getenv = (\<lambda>k. []), GOOS = ''linux'', ParseFloat = (\<lambda>x. None), Decode = (\<lambda>b. None),
      NewRequestOK = (\<lambda>u. True), httpGet = (\<lambda>i u. (r, d)),
      httpPost = (\<lambda>i u h b. (NetError, 0)),
      command = (\<lambda>i a. (\<lparr>failed = True, out = [], diag = []\<rparr>, 0)),
      late = (\<lambda>i a. (\<lparr>failed = True, out = [], diag = []\<rparr>, 0)),
      cmdStart = (\<lambda>i a. False)\<rparr>"

definition gitWorld :: "exec_result \<Rightarrow> world" where
  "gitWorld r =
     \<lparr>Getenv = (\<lambda>k. []), GOOS = ''linux'', ParseFloat = (\<lambda>x. None), Decode = (\<lambda>b. None),
      NewRequestOK = (\<lambda>u. True), httpGet = (\<lambda>i u. (NetError, 0)),
      httpPost = (\<lambda>i u h b. (NetError, 0)),
      command = (\<lambda>i a. (r, 1000)),
      late = (\<lambda>i a. (\<lparr>failed = True, out = [], diag = []\<rparr>, 0)),
      cmdStart = (\<lambda>i a. False)\<rparr>"

text \<open>
  \<open>chatWorld env reply resp\<close>: the server is up, there is no \<open>lms\<close> command, the
  environment is \<open>env\<close>, the chat request is answered by \<open>reply\<close> and the decoder reads
  \<open>resp\<close> from a body. \<open>setTemperature v\<close> is the environment that sets
  \<open>EXPLAIN_TEMPERATURE\<close> to \<open>v\<close> and nothing else.
\<close>

definition chatWorld :: "(string \<Rightarrow> string) \<Rightarrow> http_reply \<Rightarrow> chatResponse \<Rightarrow> world" where
  "chatWorld env reply resp =
     \<lparr>Getenv = env, GOOS = ''linux'',
      ParseFloat = (\<lambda>x. if x = ''0.7'' then Some (Finite 0.7) else None),
      Decode = (\<lambda>b. Some resp), NewRequestOK = (\<lambda>u. True),
      httpGet = (\<lambda>i u. (Response 200 ''{}'', 1000)),
      httpPost = (\<lambda>i u h b. (reply, 1000)),
      command = (\<lambda>i a. (\<lparr>failed = True, out = [], diag = []\<rparr>, 1000)),
      late = (\<lambda>i a. (\<lparr>failed = True, out = [], diag = []\<rparr>, 0)),
      cmdStart = (\<lambda>i a. False)\<rparr>"

definition setTemperature :: "string \<Rightarrow> string \<Rightarrow> string" where
  "setTemperature v k = (if k = ''EXPLAIN_TEMPERATURE'' then v else [])"

text \<open>
  \<open>cliWorld probe ps load\<close>: the \<open>lms\<close> command works; a probe made when \<open>i\<close> events have
  happened is answered by \<open>probe i\<close>; \<open>lms ps\<close> gives \<open>ps\<close> and \<open>lms load\<close> of the
  default model gives \<open>load\<close>. \<open>upAfter n\<close> answers with an error before the \<open>n\<close>-th
  event and with status 200 from then on; \<open>down\<close> lets every probe run into the
  five-second timeout.
\<close>

definition cliWorld :: "(nat \<Rightarrow> http_reply \<times> nat) \<Rightarrow> exec_result \<Rightarrow> exec_result \<Rightarrow> world" where
  "cliWorld probe ps load =
     \<lparr>Getenv = (\<lambda>k. []), GOOS = ''linux'', ParseFloat = (\<lambda>x. None), Decode = (\<lambda>b. None),
      NewRequestOK = (\<lambda>u. True),
      httpGet = (\<lambda>i u. probe i),
      httpPost = (\<lambda>i u h b. (NetError, 0)),
      command = (\<lambda>i a. if a = [''lms'', ''ps''] then (ps, 1000)
                         else if a = [''lms'', ''load'', ''qwen/qwen3-4b-2507''] then (load, 1000)
                         else (\<lparr>failed = False, out = [], diag = []\<rparr>, 1000)),
      late = (\<lambda>i a. (\<lparr>failed = True, out = [], diag = []\<rparr>, 0)),
      cmdStart = (\<lambda>i a. False)\<rparr>"


definition upAfter :: "nat \<Rightarrow> nat \<Rightarrow> http_reply \<times> nat" where
  "upAfter n i = (if i < n then (NetError, 1000) else (Response 200 ''{}'', 1000))"

definition down :: "nat \<Rightarrow> http_reply \<times> nat" where
  "down i = (NetError, 5 * Second)"

text \<open>
  \<open>macWorld\<close>: the platform is darwin, the server does not answer, there is no \<open>lms\<close>
  command, and a process that is started does start.
\<close>

definition macWorld :: world where
  "macWorld = (probeWorld NetError 1000)\<lparr>GOOS := ''darwin'', cmdStart := (\<lambda>i a. True)\<rparr>"

text \<open>
  \<open>overrides\<close> is an environment that sets the three variables the single-file program
  reads for its model, base URL and API key, and nothing else.
\<close>

definition overrides :: "string \<Rightarrow> string" where
  "overrides k =
     (if k = ''LMSTUDIO_BASE_URL'' then ''http://10.0.0.5:8080/v1''
      else if k = ''LMSTUDIO_MODEL'' then ''llama-3''
      else if k = ''LMSTUDIO_API_KEY'' then ''secret''
      else [])"

section \<open>Observing a trace\<close>

text \<open>
  \<open>posts\<close> reads off a trace the chat requests that were sent: the URL, the headers and
  the request of every POST, in order. \<open>steps s s'\<close> says that \<open>s'\<close> continues the trace of
  \<open>s\<close> by events none of which is a POST.
\<close>

fun isPost :: "event \<Rightarrow> bool" where
  "isPost (Post url hdrs req r) = True"
| "isPost e = False"

fun posts :: "event list \<Rightarrow> (string \<times> (string \<times> string) list \<times> chatRequest) list" where
  "posts [] = []"
| "posts (Post url hdrs req r # es) = (url, hdrs, req) # posts es"
| "posts (e # es) = posts es"

definition steps :: "sys \<Rightarrow> sys \<Rightarrow> bool" where
  "steps s s' = (\<exists>evs. trace s' = trace s @ evs \<and> list_all (\<lambda>e. \<not> isPost e) evs)"




text \<open>The temperature fields of the requests that were sent.\<close>

definition temperatures :: "event list \<Rightarrow> float64 list" where
  "temperatures evs = map (\<lambda>(url, hdrs, req). Temperature req) (posts evs)"

section \<open>Properties of trimming\<close>

lemma white_append: "white a \<Longrightarrow> white b \<Longrightarrow> white (a @ b)"
  by (induction rule: white.induct) (auto intro: white.intros)

lemma white_single: "p \<in> set spaceRunes \<Longrightarrow> white p"
  using white_rune [OF _ white_Nil] by simp

lemma spaceRunes_prefix_free:
  "p \<in> set spaceRunes \<Longrightarrow> q \<in> set spaceRunes \<Longrightarrow> prefix p q \<Longrightarrow> p = q"
  unfolding spaceRunes_def set_simps insert_iff empty_iff
  by (elim disjE; simp)

lemma leadingSpace_rune:
  assumes "p \<in> set spaceRunes"
  shows "leadingSpace (p @ s) = Some p"
proof -
  have "\<exists>q. leadingSpace (p @ s) = Some q"
    using assms by (cases "leadingSpace (p @ s)") (auto simp: leadingSpace_def find_None_iff)
  then obtain q where q: "leadingSpace (p @ s) = Some q" by blast
  then have qs: "q \<in> set spaceRunes" and pre: "prefix q (p @ s)"
    using leadingSpace_Some by blast+
  from pre have "prefix q p \<or> prefix p q"
    by (metis prefix_append prefix_def)
  with assms qs have "q = p"
    using spaceRunes_prefix_free by blast
  with q show ?thesis by simp
qed

lemma trimLeftSpace_decomp: "\<exists>p. s = p @ trimLeftSpace s \<and> white p"
proof (induction s rule: trimLeftSpace.induct)
  case (1 s)
  show ?case
  proof (cases "leadingSpace s")
    case None
    then show ?thesis using white_Nil by (subst trimLeftSpace.simps) auto
  next
    case (Some p)
    then have p: "p \<in> set spaceRunes" "prefix p s"
      using leadingSpace_Some by blast+
    from 1 Some obtain q where q: "drop (length p) s = q @ trimLeftSpace (drop (length p) s)" "white q"
      by blast
    have "trimLeftSpace s = trimLeftSpace (drop (length p) s)"
      using Some by (subst trimLeftSpace.simps) simp
    moreover have "s = p @ drop (length p) s"
      using p(2) by (auto simp: prefix_def)
    ultimately have "s = (p @ q) @ trimLeftSpace s"
      using q(1) by (metis append.assoc)
    moreover have "white (p @ q)"
      using p(1) q(2) by (rule white_rune)
    ultimately show ?thesis by blast
  qed
qed

lemma trimRightSpace_decomp: "\<exists>q. s = trimRightSpace s @ q \<and> white q"
proof (induction s rule: trimRightSpace.induct)
  case (1 s)
  show ?case
  proof (cases "trailingSpace s")
    case None
    then show ?thesis using white_Nil by (subst trimRightSpace.simps) auto
  next
    case (Some p)
    then have p: "p \<in> set spaceRunes" "suffix p s"
      using trailingSpace_Some by blast+
    let ?t = "take (length s - length p) s"
    from 1 Some obtain q where q: "?t = trimRightSpace ?t @ q" "white q"
      by blast
    have "trimRightSpace s = trimRightSpace ?t"
      using Some by (subst trimRightSpace.simps) simp
    moreover have "s = ?t @ p"
      using p(2) by (auto simp: suffix_def)
    ultimately have "s = trimRightSpace s @ (q @ p)"
      using q(1) by (metis append.assoc)
    moreover have "white (q @ p)"
      using q(2) p(1) by (simp add: white_append white_single)
    ultimately show ?thesis by blast
  qed
qed

lemma TrimSpace_decomp: "\<exists>p q. s = p @ TrimSpace s @ q \<and> white p \<and> white q"
proof -
  obtain p where p: "s = p @ trimLeftSpace s" "white p"
    using trimLeftSpace_decomp by blast
  obtain q where q: "trimLeftSpace s = TrimSpace s @ q" "white q"
    unfolding TrimSpace_def using trimRightSpace_decomp by blast
  from p(1) q(1) have "s = p @ TrimSpace s @ q" by simp
  with p(2) q(2) show ?thesis by blast
qed

lemma trimLeftSpace_white: "white s \<Longrightarrow> trimLeftSpace s = []"
proof (induction rule: white.induct)
  case white_Nil
  show ?case by (subst trimLeftSpace.simps) (simp add: leadingSpace_def spaceRunes_def)
next
  case (white_rune p s)
  then show ?case
    by (subst trimLeftSpace.simps) (simp add: leadingSpace_rune)
qed

lemma trimRightSpace_Nil: "trimRightSpace [] = []"
  by (subst trimRightSpace.simps) (simp add: trailingSpace_def spaceRunes_def)

lemma TrimSpace_empty_iff: "TrimSpace s = [] \<longleftrightarrow> white s"
proof
  assume "TrimSpace s = []"
  then show "white s"
    using TrimSpace_decomp [of s] white_append by auto
next
  assume "white s"
  then show "TrimSpace s = []"
    by (simp add: TrimSpace_def trimLeftSpace_white trimRightSpace_Nil)
qed

lemma trimLeftSpace_leading: "leadingSpace (trimLeftSpace s) = None"
proof (induction s rule: trimLeftSpace.induct)
  case (1 s)
  then show ?case
    by (cases "leadingSpace s") (subst trimLeftSpace.simps, simp)+
qed

lemma trimRightSpace_trailing: "trailingSpace (trimRightSpace s) = None"
proof (induction s rule: trimRightSpace.induct)
  case (1 s)
  then show ?case
    by (cases "trailingSpace s") (subst trimRightSpace.simps, simp)+
qed

lemma trimRightSpace_prefix: "prefix (trimRightSpace s) s"
  using trimRightSpace_decomp [of s] by (metis prefixI)

lemma TrimSpace_trimmed:
  "leadingSpace (TrimSpace s) = None \<and> trailingSpace (TrimSpace s) = None"
proof -
  have "leadingSpace (TrimSpace s) = None"
  proof (rule ccontr)
    assume "leadingSpace (TrimSpace s) \<noteq> None"
    then obtain p where "p \<in> set spaceRunes" "prefix p (TrimSpace s)"
      using leadingSpace_Some by fastforce
    then have "prefix p (trimLeftSpace s)"
      using trimRightSpace_prefix [of "trimLeftSpace s"] by (auto simp: TrimSpace_def)
    with \<open>p \<in> set spaceRunes\<close> have "leadingSpace (trimLeftSpace s) \<noteq> None"
      by (auto simp: leadingSpace_def find_None_iff)
    then show False by (simp add: trimLeftSpace_leading)
  qed
  then show ?thesis
    by (simp add: TrimSpace_def trimRightSpace_trailing)
qed


section \<open>Properties of the readiness check\<close>

text \<open>
  C10. Called with the empty string, \<open>IsRunning\<close> does not fail and does not probe an
  empty URL: it takes the default base URL, probes
  \<open>http://localhost:1234/v1/models\<close>, and so does exactly what
  \<open>IsRunning defaultBaseURL\<close> does.
\<close>

theorem IsRunning_empty_is_default:
  "IsRunning w [] s = IsRunning w defaultBaseURL s \<and>
   (\<exists>r. trace (snd (IsRunning w [] s)) = trace s @ [Get ''http://localhost:1234/v1/models'' r])"
  by (simp add: IsRunning_def defaultBaseURL_def TrimRight_def clientGet_def emit_def
      advance_def Let_def split: prod.splits http_reply.splits)


lemma TrimRight_no_slash:
  "baseURL \<noteq> [] \<Longrightarrow> last baseURL \<noteq> CHR ''/'' \<Longrightarrow> TrimRight baseURL ''/'' = baseURL"
  by (cases baseURL rule: rev_cases) (simp_all add: TrimRight_def)

text \<open>
  C7. \<open>IsRunning\<close> is true exactly when the GET probe comes back with status 200 before
  the five-second timeout of its client; a transport error, a late reply or any other
  status gives false. It is a total function: there is no other outcome. The probed
  URL is the base URL (the default one for the empty string) without its trailing
  slashes, followed by \<open>/models\<close>; for a base URL that does not end in a slash this is
  \<open>baseURL/models\<close>.
\<close>

theorem IsRunning_iff_200:
  "(fst (IsRunning w baseURL s) \<longleftrightarrow>
      (\<exists>body d. httpGet w (length (trace s))
                   (TrimRight (if baseURL = [] then defaultBaseURL else baseURL) ''/'' @ ''/models'')
                 = (Response 200 body, d) \<and> d < 5 * Second)) \<and>
   (baseURL \<noteq> [] \<and> last baseURL \<noteq> CHR ''/'' \<longrightarrow>
      TrimRight (if baseURL = [] then defaultBaseURL else baseURL) ''/'' @ ''/models''
        = baseURL @ ''/models'')"
  by (auto simp: IsRunning_def clientGet_def StatusOK_def Let_def TrimRight_no_slash
      split: prod.splits http_reply.splits)

theorem IsRunning_iff_200_witness:
  "''http://localhost:1234/v1'' \<noteq> [] \<and> last ''http://localhost:1234/v1'' \<noteq> CHR ''/'' \<and>
   fst (IsRunning (probeWorld (Response 200 ''{}'') 1000) ''http://localhost:1234/v1'' start0) \<and>
   \<not> fst (IsRunning (probeWorld (Response 503 ''busy'') 1000) ''http://localhost:1234/v1'' start0) \<and>
   \<not> fst (IsRunning (probeWorld NetError 1000) ''http://localhost:1234/v1'' start0) \<and>
   \<not> fst (IsRunning (probeWorld (Response 200 ''{}'') (5 * Second)) ''http://localhost:1234/v1'' start0)"
  using IsRunning_iff_200 [of "probeWorld (Response 200 ''{}'') 1000" "''http://localhost:1234/v1''" start0]
        IsRunning_iff_200 [of "probeWorld (Response 503 ''busy'') 1000" "''http://localhost:1234/v1''" start0]
        IsRunning_iff_200 [of "probeWorld NetError 1000" "''http://localhost:1234/v1''" start0]
        IsRunning_iff_200 [of "probeWorld (Response 200 ''{}'') (5 * Second)" "''http://localhost:1234/v1''" start0]
  by (simp_all add: probeWorld_def start0_def Second_def)

section \<open>Properties of the commit reader\<close>

text \<open>
  C4. Let \<open>r\<close> be what running \<open>git show --stat --patch HEAD\<close> gives. If the call
  succeeded and its output is not white, \<open>GetLatestCommit\<close> returns the output trimmed:
  the output is some white prefix, the returned text and some white suffix, and the
  returned text neither starts nor ends with a white-space rune. If the call failed
  (\<open>git\<close> exited non-zero or could not run), or the output is empty or white only,
  \<open>GetLatestCommit\<close> fails, with ``failed to run git show'' in the first case and
  ``empty git show output'' in the second: the two execution errors.
\<close>

theorem GetLatestCommit_result:
  assumes "command w (length (trace s)) [''git'', ''show'', ''--stat'', ''--patch'', ''HEAD''] = (r, d)"
  shows "(\<not> failed r \<and> \<not> white (out r) \<longrightarrow>
            fst (GetLatestCommit w s) = Inr (TrimSpace (out r)) \<and>
            (\<exists>p q. out r = p @ TrimSpace (out r) @ q \<and> white p \<and> white q) \<and>
            leadingSpace (TrimSpace (out r)) = None \<and>
            trailingSpace (TrimSpace (out r)) = None) \<and>
         (failed r \<longrightarrow> fst (GetLatestCommit w s) = Inl GitShowFailed) \<and>
         (\<not> failed r \<and> white (out r) \<longrightarrow> fst (GetLatestCommit w s) = Inl EmptyGitShow)"
  using assms TrimSpace_decomp [of "out r"] TrimSpace_trimmed [of "out r"]
        TrimSpace_empty_iff [of "out r"]
  by (simp add: GetLatestCommit_def runCommand_def Let_def)

theorem GetLatestCommit_result_witness:
  "fst (GetLatestCommit (gitWorld \<lparr>failed = False, out = ''  commit 1a2b\<newline>'', diag = []\<rparr>) start0)
     = Inr ''commit 1a2b'' \<and>
   fst (GetLatestCommit (gitWorld \<lparr>failed = True, out = ''commit 1a2b'', diag = ''fatal''\<rparr>) start0)
     = Inl GitShowFailed \<and>
   fst (GetLatestCommit (gitWorld \<lparr>failed = False, out = '' \<newline>'', diag = []\<rparr>) start0)
     = Inl EmptyGitShow"
proof -
  let ?git = "[''git'', ''show'', ''--stat'', ''--patch'', ''HEAD'']"
  let ?ok = "\<lparr>failed = False, out = ''  commit 1a2b\<newline>'', diag = []\<rparr>"
  let ?bad = "\<lparr>failed = True, out = ''commit 1a2b'', diag = ''fatal''\<rparr>"
  let ?blank = "\<lparr>failed = False, out = '' \<newline>'', diag = []\<rparr>"
  have t1: "TrimSpace ''  commit 1a2b\<newline>'' = ''commit 1a2b''" by code_simp
  have t2: "TrimSpace '' \<newline>'' = []" by code_simp
  have w1: "\<not> white (out ?ok)"
    using TrimSpace_empty_iff [of "out ?ok"] t1 by simp
  have w2: "white (out ?blank)"
    using TrimSpace_empty_iff [of "out ?blank"] t2 by simp
  have c: "\<And>r. command (gitWorld r) (length (trace start0)) ?git = (r, 1000)"
    by (simp add: gitWorld_def)
  from GetLatestCommit_result [OF c [of ?ok]] w1 t1
  have "fst (GetLatestCommit (gitWorld ?ok) start0) = Inr ''commit 1a2b''" by simp
  moreover from GetLatestCommit_result [OF c [of ?bad]]
  have "fst (GetLatestCommit (gitWorld ?bad) start0) = Inl GitShowFailed" by simp
  moreover from GetLatestCommit_result [OF c [of ?blank]] w2
  have "fst (GetLatestCommit (gitWorld ?blank) start0) = Inl EmptyGitShow" by simp
  ultimately show ?thesis by simp
qed

section \<open>Properties of the raw mode\<close>

text \<open>
  C3 (as the program has it). A run whose first argument is \<open>--raw\<close> makes no network
  call: it prints the progress line, runs \<open>git show\<close> and forwards its diagnostics, and
  nothing else happens but what follows. If the commit reader succeeded, the run prints
  the line \<open>----- RAW COMMIT -----\<close> and then exactly the commit reader's text (and a
  newline), and exits with status 0. If the commit reader failed, the run logs that
  error and exits with status 1.
\<close>

theorem main_raw:
  assumes "1 < length args" and "args ! 1 = ''--raw''"
    and "command w (Suc (length (trace s))) [''git'', ''show'', ''--stat'', ''--patch'', ''HEAD''] = (r, d)"
  shows "main w args s =
     (if failed r \<or> white (out r) then
        (1, s\<lparr>now := now s + d,
              trace := trace s @
                [Stdout ([CHR 0xF0, CHR 0x9F, CHR 0x94, CHR 0x8D] @
                         '' Reading latest commit (git show HEAD)...\<newline>''),
                 Exec [''git'', ''show'', ''--stat'', ''--patch'', ''HEAD''] r,
                 Stderr (diag r),
                 Fatal (if failed r then GitShowFailed else EmptyGitShow)]\<rparr>)
      else
        (0, s\<lparr>now := now s + d,
              trace := trace s @
                [Stdout ([CHR 0xF0, CHR 0x9F, CHR 0x94, CHR 0x8D] @
                         '' Reading latest commit (git show HEAD)...\<newline>''),
                 Exec [''git'', ''show'', ''--stat'', ''--patch'', ''HEAD''] r,
                 Stderr (diag r),
                 Stdout ''----- RAW COMMIT -----\<newline>'',
                 Stdout (TrimSpace (out r) @ ''\<newline>'')]\<rparr>))"
  using assms TrimSpace_empty_iff [of "out r"]
  by (simp add: main_def GetLatestCommit_def runCommand_def Println_def emit_def advance_def Let_def)

theorem main_raw_witness:
  "main (gitWorld \<lparr>failed = False, out = ''  commit 1a2b\<newline>'', diag = []\<rparr>)
        [''explain-commit'', ''--raw''] start0 =
     (0, \<lparr>now = 1000,
          trace = [Stdout ([CHR 0xF0, CHR 0x9F, CHR 0x94, CHR 0x8D] @
                           '' Reading latest commit (git show HEAD)...\<newline>''),
                   Exec [''git'', ''show'', ''--stat'', ''--patch'', ''HEAD'']
                     \<lparr>failed = False, out = ''  commit 1a2b\<newline>'', diag = []\<rparr>,
                   Stderr [],
                   Stdout ''----- RAW COMMIT -----\<newline>'',
                   Stdout ''commit 1a2b\<newline>'']\<rparr>)"
proof -
  let ?ok = "\<lparr>failed = False, out = ''  commit 1a2b\<newline>'', diag = []\<rparr>"
  have t1: "TrimSpace ''  commit 1a2b\<newline>'' = ''commit 1a2b''" by code_simp
  have w1: "\<not> white (out ?ok)"
    using TrimSpace_empty_iff [of "out ?ok"] t1 by simp
  have a: "1 < length [''explain-commit'', ''--raw'']" by simp
  have b: "[''explain-commit'', ''--raw''] ! 1 = ''--raw''" by simp
  have c: "command (gitWorld ?ok) (Suc (length (trace start0)))
             [''git'', ''show'', ''--stat'', ''--patch'', ''HEAD''] = (?ok, 1000)"
    by (simp add: gitWorld_def)
  from main_raw [OF a b c] w1 t1 show ?thesis
    by (simp add: start0_def)
qed

text \<open>
  Not every run with \<open>--raw\<close> exits with status 0: where \<open>git show\<close> fails (outside a
  repository, say) the run prints the progress line only and exits with status 1.
\<close>

theorem main_raw_git_failure:
  "main (gitWorld \<lparr>failed = True, out = [], diag = ''fatal: not a git repository''\<rparr>)
        [''explain-commit'', ''--raw''] start0 =
     (1, \<lparr>now = 1000,
          trace = [Stdout ([CHR 0xF0, CHR 0x9F, CHR 0x94, CHR 0x8D] @
                           '' Reading latest commit (git show HEAD)...\<newline>''),
                   Exec [''git'', ''show'', ''--stat'', ''--patch'', ''HEAD'']
                     \<lparr>failed = True, out = [], diag = ''fatal: not a git repository''\<rparr>,
                   Stderr ''fatal: not a git repository'',
                   Fatal GitShowFailed]\<rparr>)"
  by (simp add: main_def GetLatestCommit_def runCommand_def Println_def emit_def advance_def
      Let_def gitWorld_def start0_def)

section \<open>Properties of traces\<close>

lemma posts_append: "posts (xs @ ys) = posts xs @ posts ys"
  by (induction xs rule: posts.induct) auto

lemma posts_quiet: "list_all (\<lambda>e. \<not> isPost e) evs \<Longrightarrow> posts evs = []"
  by (induction evs rule: posts.induct) auto

lemma steps_refl: "steps s s"
  by (simp add: steps_def)

lemma steps_trans: "steps s s1 \<Longrightarrow> steps s1 s2 \<Longrightarrow> steps s s2"
  by (auto simp: steps_def)

lemma steps_posts: "steps s s' \<Longrightarrow> posts (trace s') = posts (trace s)"
  by (auto simp: steps_def posts_append posts_quiet)

lemma steps_emit: "\<not> isPost e \<Longrightarrow> steps s (emit e s)"
  by (simp add: steps_def emit_def)

lemma steps_Println: "steps s (Println x s)"
  by (simp add: Println_def steps_emit)

lemma steps_sleep: "steps s (sleep d s)"
  by (simp add: steps_def sleep_def emit_def advance_def)

lemma steps_clientGet: "clientGet w t url s = (r, s') \<Longrightarrow> steps s s'"
  by (auto simp: steps_def clientGet_def emit_def advance_def Let_def split: prod.splits)

lemma steps_runCommand: "runCommand w argv s = (r, s') \<Longrightarrow> steps s s'"
  by (auto simp: steps_def runCommand_def emit_def advance_def Let_def split: prod.splits)

lemma steps_runCommandContext: "runCommandContext w t argv s = (r, s') \<Longrightarrow> steps s s'"
  by (auto simp: steps_def runCommandContext_def emit_def advance_def Let_def split: prod.splits)

lemma steps_outputCommandContext: "outputCommandContext w t argv s = (r, s') \<Longrightarrow> steps s s'"
  by (auto simp: steps_def outputCommandContext_def emit_def advance_def Let_def
      split: prod.splits if_splits)

lemma steps_IsRunning: "IsRunning w baseURL s = (b, s') \<Longrightarrow> steps s s'"
  by (auto simp: IsRunning_def Let_def split: prod.splits http_reply.splits dest: steps_clientGet)

lemma steps_isLMSCLIAvailable: "isLMSCLIAvailable w s = (b, s') \<Longrightarrow> steps s s'"
  by (auto simp: isLMSCLIAvailable_def Let_def split: prod.splits dest: steps_runCommandContext)

lemma steps_isModelLoaded: "isModelLoaded w m s = (b, s') \<Longrightarrow> steps s s'"
  by (auto simp: isModelLoaded_def Let_def split: prod.splits if_splits dest: steps_outputCommandContext)

lemma steps_loadModel: "loadModel w m s = (r, s') \<Longrightarrow> steps s s'"
proof -
  assume a: "loadModel w m s = (r, s')"
  let ?s0 = "emit (Stdout (''Loading model: '' @ m @ ''...'' @ [CHR 0x0A])) s"
  obtain x s1 where c: "outputCommandContext w (60 * Second) [''lms'', ''load'', m] ?s0 = (x, s1)"
    by (cases "outputCommandContext w (60 * Second) [''lms'', ''load'', m] ?s0")
  have "steps s ?s0" by (simp add: steps_emit)
  moreover have "steps ?s0 s1" using c by (rule steps_outputCommandContext)
  moreover have "steps s1 s'"
    using a c by (auto simp: loadModel_def Let_def steps_refl steps_Println split: if_splits)
  ultimately show ?thesis using steps_trans by blast
qed

lemma steps_startServerWithCLI: "startServerWithCLI w s = (r, s') \<Longrightarrow> steps s s'"
proof -
  assume a: "startServerWithCLI w s = (r, s')"
  let ?s0 = "Println ''Starting LM Studio server with `lms server start`...'' s"
  obtain x s1 where c: "runCommand w [''lms'', ''server'', ''start''] ?s0 = (x, s1)"
    by (cases "runCommand w [''lms'', ''server'', ''start''] ?s0")
  have "steps s ?s0" by (rule steps_Println)
  moreover have "steps ?s0 s1" using c by (rule steps_runCommand)
  moreover have "s' = s1"
    using a c by (auto simp: startServerWithCLI_def Let_def split: if_splits)
  ultimately show ?thesis using steps_trans by blast
qed

lemma steps_waitLoop: "waitLoop w baseURL deadline s = (r, s') \<Longrightarrow> steps s s'"
proof (induction w baseURL deadline s arbitrary: r s' rule: waitLoop.induct)
  case (1 w baseURL deadline s)
  show ?case
  proof (cases "now s < deadline")
    case False
    with "1.prems" show ?thesis
      by (simp add: waitLoop.simps steps_refl)
  next
    case True
    obtain b s1 where p: "IsRunning w baseURL s = (b, s1)"
      by (cases "IsRunning w baseURL s")
    then have s1: "steps s s1" by (rule steps_IsRunning)
    show ?thesis
    proof (cases b)
      case True
      with \<open>now s < deadline\<close> p "1.prems" have "s' = Println ''LM Studio server is ready'' s1"
        by (simp add: waitLoop.simps)
      with s1 show ?thesis
        using steps_Println steps_trans by blast
    next
      case False
      with \<open>now s < deadline\<close> p "1.prems"
      have "waitLoop w baseURL deadline (sleep (1 * Second) s1) = (r, s')"
        by (simp add: waitLoop.simps)
      with "1.IH" [OF \<open>now s < deadline\<close> p [symmetric]] False
      have "steps (sleep (1 * Second) s1) s'" by simp
      with s1 show ?thesis
        using steps_sleep steps_trans by blast
    qed
  qed
qed

lemma steps_waitForServer: "waitForServer w baseURL t s = (r, s') \<Longrightarrow> steps s s'"
proof -
  assume "waitForServer w baseURL t s = (r, s')"
  then have "steps (Println ''Waiting for LM Studio server...'' s) s'"
    by (auto simp: waitForServer_def Let_def dest: steps_waitLoop)
  then show ?thesis using steps_Println steps_trans by blast
qed

lemma via_Println: "steps (Println x s) s' \<Longrightarrow> steps s s'"
  using steps_Println steps_trans by blast

lemma via_IsRunning: "IsRunning w b s = (r, s1) \<Longrightarrow> steps s1 s' \<Longrightarrow> steps s s'"
  using steps_IsRunning steps_trans by blast

lemma via_isLMSCLIAvailable: "isLMSCLIAvailable w s = (r, s1) \<Longrightarrow> steps s1 s' \<Longrightarrow> steps s s'"
  using steps_isLMSCLIAvailable steps_trans by blast

lemma via_isModelLoaded: "isModelLoaded w m s = (r, s1) \<Longrightarrow> steps s1 s' \<Longrightarrow> steps s s'"
  using steps_isModelLoaded steps_trans by blast

lemma via_loadModel: "loadModel w m s = (r, s1) \<Longrightarrow> steps s1 s' \<Longrightarrow> steps s s'"
  using steps_loadModel steps_trans by blast

lemma via_startServerWithCLI: "startServerWithCLI w s = (r, s1) \<Longrightarrow> steps s1 s' \<Longrightarrow> steps s s'"
  using steps_startServerWithCLI steps_trans by blast

lemma via_waitForServer: "waitForServer w b t s = (r, s1) \<Longrightarrow> steps s1 s' \<Longrightarrow> steps s s'"
  using steps_waitForServer steps_trans by blast

lemma via_Println_isLMSCLIAvailable:
  "isLMSCLIAvailable w (Println x s) = (r, s1) \<Longrightarrow> steps s1 s' \<Longrightarrow> steps s s'"
  using via_isLMSCLIAvailable via_Println by blast

lemma via_Println_loadModel:
  "loadModel w m (Println x s) = (r, s1) \<Longrightarrow> steps s1 s' \<Longrightarrow> steps s s'"
  using via_loadModel via_Println by blast

lemmas via = via_IsRunning via_isLMSCLIAvailable via_isModelLoaded via_loadModel
  via_startServerWithCLI via_waitForServer via_Println_isLMSCLIAvailable via_Println_loadModel


lemma steps_snd_StartLMStudio: "steps s (snd (StartLMStudio w s))"
  unfolding StartLMStudio_def
  by (simp only: snd_conv | intro allI impI conjI | rule steps_refl
      | split bool.split | split sum.split | split prod.split | erule via)+

lemma steps_StartLMStudio: "StartLMStudio w s = (r, s') \<Longrightarrow> steps s s'"
  using steps_snd_StartLMStudio [of s w] by simp


section \<open>Properties of the JSON strings\<close>

lemma leadByte_range:
  "leadByte c = Some (n, lo, hi) \<Longrightarrow> 0x80 \<le> lo \<and> 2 \<le> n \<and> n \<le> 4"
  by (auto simp: leadByte_def Let_def split: if_splits)

lemma continuation_length: "continuation n s \<Longrightarrow> n \<le> length s"
  by (induction n s rule: continuation.induct) auto

lemma runeLen_le: "runeLen s \<le> length s"
proof (cases s)
  case Nil
  then show ?thesis by simp
next
  case (Cons c t)
  show ?thesis
  proof (cases "byte c < 0x80")
    case True
    then show ?thesis using Cons by simp
  next
    case False
    show ?thesis
    proof (cases "leadByte c")
      case None
      then show ?thesis using Cons False by simp
    next
      case (Some p)
      obtain n lo hi where p: "p = (n, lo, hi)" by (cases p)
      from leadByte_range [of c n lo hi] Some p have r: "2 \<le> n" by simp
      show ?thesis
      proof (cases t)
        case Nil
        then show ?thesis using Cons False Some p by simp
      next
        case (Cons c1 s1)
        show ?thesis
        proof (cases "lo \<le> byte c1 \<and> byte c1 \<le> hi \<and> continuation (n - 2) s1")
          case True
          then have "n - 2 \<le> length s1" by (simp add: continuation_length)
          then show ?thesis using \<open>s = c # t\<close> Cons False Some p True r by simp
        next
          case no: False
          show ?thesis using \<open>s = c # t\<close> Cons \<open>\<not> byte c < 0x80\<close> Some p no by auto
        qed
      qed
    qed
  qed
qed

lemma continuation_append:
  "asciiHead t \<Longrightarrow> continuation n (s @ t) = continuation n s"
proof (induction n s rule: continuation.induct)
  case (2 n)
  then show ?case by (cases t) (auto simp: asciiHead_def)
qed auto

lemma runeLen_append:
  assumes "asciiHead t" and "s \<noteq> []"
  shows "runeLen (s @ t) = runeLen s"
proof -
  obtain c r where s: "s = c # r" using assms(2) by (cases s) auto
  show ?thesis
  proof (cases "byte c < 0x80")
    case True
    then show ?thesis using s by simp
  next
    case False
    show ?thesis
    proof (cases "leadByte c")
      case None
      then show ?thesis using s False by simp
    next
      case (Some p)
      obtain n lo hi where p: "p = (n, lo, hi)" by (cases p)
      from leadByte_range [of c n lo hi] Some p have lo: "0x80 \<le> lo" by simp
      show ?thesis
      proof (cases r)
        case Nil
        then show ?thesis using s False Some p lo assms(1)
          by (cases t) (auto simp: asciiHead_def)
      next
        case (Cons c1 s1)
        then show ?thesis using s False Some p continuation_append [OF assms(1)] by simp
      qed
    qed
  qed
qed

lemma jsonString_Nil: "jsonString [] = []"
  by (simp add: jsonString.simps)

lemma jsonString_append:
  "asciiHead t \<Longrightarrow> jsonString (s @ t) = jsonString s @ jsonString t"
proof (induction s rule: jsonString.induct)
  case (1 s)
  show ?case
  proof (cases "s = []")
    case True
    then show ?thesis by (simp add: jsonString_Nil)
  next
    case False
    from runeLen_append [OF 1(3) False] have k: "runeLen (s @ t) = runeLen s" .
    show ?thesis
    proof (cases "runeLen s = 0")
      case True
      have "jsonString (s @ t) = [CHR 0xEF, CHR 0xBF, CHR 0xBD] @ jsonString (tl s @ t)"
        using False True k by (subst jsonString.simps) simp
      also have "jsonString (tl s @ t) = jsonString (tl s) @ jsonString t"
        using 1(1) [OF False True 1(3)] .
      also have "[CHR 0xEF, CHR 0xBF, CHR 0xBD] @ jsonString (tl s) @ jsonString t = jsonString s @ jsonString t"
        using False True by (subst (2) jsonString.simps) simp
      finally show ?thesis .
    next
      case nz: False
      have le: "runeLen s \<le> length s" by (rule runeLen_le)
      have "jsonString (s @ t) = take (runeLen s) s @ jsonString (drop (runeLen s) s @ t)"
        using False nz k le by (subst jsonString.simps) simp
      also have "jsonString (drop (runeLen s) s @ t) = jsonString (drop (runeLen s) s) @ jsonString t"
        using 1(2) [OF False nz 1(3)] .
      also have "take (runeLen s) s @ jsonString (drop (runeLen s) s) @ jsonString t = jsonString s @ jsonString t"
        using False nz by (subst (2) jsonString.simps) simp
      finally show ?thesis .
    qed
  qed
qed

lemma jsonString_ascii_Cons:
  "byte c < 0x80 \<Longrightarrow> jsonString (c # s) = c # jsonString s"
  by (subst jsonString.simps) simp

lemma jsonString_ascii:
  "list_all (\<lambda>c. byte c < 0x80) a \<Longrightarrow> jsonString (a @ s) = a @ jsonString s"
  by (induction a) (simp_all add: jsonString_ascii_Cons)

lemma jsonString_valid: "ValidString s \<Longrightarrow> jsonString s = s"
proof (induction s rule: jsonString.induct)
  case (1 s)
  show ?case
  proof (cases "s = []")
    case True
    then show ?thesis by (simp add: jsonString_Nil)
  next
    case False
    from 1(3) False have nz: "runeLen s \<noteq> 0" and v: "ValidString (drop (runeLen s) s)"
      by (subst (asm) ValidString.simps, simp split: if_splits)+
    have "jsonString s = take (runeLen s) s @ jsonString (drop (runeLen s) s)"
      using False nz by (subst jsonString.simps) simp
    also have "jsonString (drop (runeLen s) s) = drop (runeLen s) s"
      using 1(2) [OF False nz v] .
    finally show ?thesis by simp
  qed
qed

lemma jsonString_length: "length s \<le> length (jsonString s)"
proof (induction s rule: jsonString.induct)
  case (1 s)
  show ?case
  proof (cases "s = []")
    case True
    then show ?thesis by simp
  next
    case False
    show ?thesis
    proof (cases "runeLen s = 0")
      case True
      have "jsonString s = [CHR 0xEF, CHR 0xBF, CHR 0xBD] @ jsonString (tl s)"
        using False True by (subst jsonString.simps) simp
      with 1(1) [OF False True] show ?thesis by simp
    next
      case nz: False
      have "jsonString s = take (runeLen s) s @ jsonString (drop (runeLen s) s)"
        using False nz by (subst jsonString.simps) simp
      with 1(2) [OF False nz] runeLen_le [of s] show ?thesis by simp
    qed
  qed
qed

lemma jsonString_fixed: "jsonString s = s \<Longrightarrow> ValidString s"
proof (induction s rule: jsonString.induct)
  case (1 s)
  show ?case
  proof (cases "s = []")
    case True
    then show ?thesis by (simp add: ValidString.simps)
  next
    case False
    have nz: "runeLen s \<noteq> 0"
    proof
      assume z: "runeLen s = 0"
      have "jsonString s = [CHR 0xEF, CHR 0xBF, CHR 0xBD] @ jsonString (tl s)"
        using False z by (subst jsonString.simps) simp
      then have "length (jsonString s) = 3 + length (jsonString (tl s))" by simp
      moreover have "length (tl s) \<le> length (jsonString (tl s))" by (rule jsonString_length)
      ultimately have "length s < length (jsonString s)" using False by (cases s) auto
      with 1(3) show False by simp
    qed
    have "jsonString s = take (runeLen s) s @ jsonString (drop (runeLen s) s)"
      using False nz by (subst jsonString.simps) simp
    with 1(3) have "take (runeLen s) s @ jsonString (drop (runeLen s) s) = take (runeLen s) s @ drop (runeLen s) s"
      by simp
    then have "jsonString (drop (runeLen s) s) = drop (runeLen s) s"
      by (simp only: same_append_eq)
    from 1(2) [OF False nz this] show ?thesis
      using False nz by (subst ValidString.simps) simp
  qed
qed

lemma jsonString_id: "jsonString s = s \<longleftrightarrow> ValidString s"
  using jsonString_fixed jsonString_valid by blast

lemma ValidString_ascii: "list_all (\<lambda>c. byte c < 0x80) a \<Longrightarrow> ValidString a"
proof -
  assume "list_all (\<lambda>c. byte c < 0x80) a"
  then have "jsonString (a @ []) = a @ jsonString []" by (rule jsonString_ascii)
  then show ?thesis by (simp add: jsonString_Nil jsonString_id)
qed

lemma Marshal_valid:
  "ValidString (Model req) \<Longrightarrow>
   list_all (\<lambda>m. ValidString (Role m) \<and> ValidString (Content m)) (Messages req) \<Longrightarrow>
   Marshal req = req"
proof -
  assume a: "ValidString (Model req)"
    and b: "list_all (\<lambda>m. ValidString (Role m) \<and> ValidString (Content m)) (Messages req)"
  have "map (\<lambda>m. \<lparr>Role = jsonString (Role m), Content = jsonString (Content m)\<rparr>) (Messages req)
          = map (\<lambda>m. m) (Messages req)"
    using b by (intro map_cong refl) (simp add: list_all_iff jsonString_valid)
  with a show ?thesis
    by (simp add: Marshal_def jsonString_valid)
qed


section \<open>Properties of the chat request\<close>

lemma userPrompt_eq:
  "userPrompt commitText =
     ''Here is the latest commit on the current branch:\<newline>\<newline>'' @ commitText @
     ''\<newline>\<newline>Explain this commit following the rules.''"
  unfolding userPrompt_def by code_simp

lemma chat_url: "TrimRight defaultBaseURL ''/'' @ ''/chat/completions''
   = ''http://localhost:1234/v1/chat/completions''"
  by (simp add: TrimRight_def defaultBaseURL_def)

lemma jsonString_userPrompt:
  "jsonString (userPrompt commitText) =
     ''Here is the latest commit on the current branch:\<newline>\<newline>'' @ jsonString commitText @
     ''\<newline>\<newline>Explain this commit following the rules.''"
proof -
  have a: "list_all (\<lambda>c. byte c < 0x80) ''Here is the latest commit on the current branch:\<newline>\<newline>''"
    by (simp add: byte_def)
  have b: "asciiHead ''\<newline>\<newline>Explain this commit following the rules.''"
    by (simp add: asciiHead_def byte_def)
  have "list_all (\<lambda>c. byte c < 0x80) ''\<newline>\<newline>Explain this commit following the rules.''"
    by (simp add: byte_def)
  then have c: "jsonString ''\<newline>\<newline>Explain this commit following the rules.'' =
                  ''\<newline>\<newline>Explain this commit following the rules.''"
    by (intro jsonString_valid ValidString_ascii)
  have "jsonString (userPrompt commitText) =
          jsonString (''Here is the latest commit on the current branch:\<newline>\<newline>'' @
            (commitText @ ''\<newline>\<newline>Explain this commit following the rules.''))"
    by (simp only: userPrompt_eq)
  also have "\<dots> = ''Here is the latest commit on the current branch:\<newline>\<newline>'' @
          jsonString (commitText @ ''\<newline>\<newline>Explain this commit following the rules.'')"
    using a by (rule jsonString_ascii)
  also have "jsonString (commitText @ ''\<newline>\<newline>Explain this commit following the rules.'') =
          jsonString commitText @ jsonString ''\<newline>\<newline>Explain this commit following the rules.''"
    using b by (rule jsonString_append)
  finally show ?thesis
    by (simp only: c)
qed

lemma ValidString_systemPrompt: "ValidString systemPrompt"
  by code_simp

lemma ValidString_systemPrompt0: "ValidString systemPrompt0"
  by code_simp

lemma Marshal_request:
  "Marshal \<lparr>Model = ''qwen/qwen3-4b-2507'',
            Messages = [\<lparr>Role = ''system'', Content = systemPrompt\<rparr>,
                        \<lparr>Role = ''user'', Content = userPrompt commitText\<rparr>],
            Temperature = t\<rparr> =
     \<lparr>Model = ''qwen/qwen3-4b-2507'',
      Messages = [\<lparr>Role = ''system'', Content = systemPrompt\<rparr>,
                  \<lparr>Role = ''user'',
                   Content = ''Here is the latest commit on the current branch:\<newline>\<newline>'' @
                             jsonString commitText @
                             ''\<newline>\<newline>Explain this commit following the rules.''\<rparr>],
      Temperature = t\<rparr>"
proof -
  have "ValidString ''qwen/qwen3-4b-2507''" "ValidString ''system''" "ValidString ''user''"
    by (rule ValidString_ascii, simp add: byte_def)+
  then show ?thesis
    by (simp add: Marshal_def jsonString_valid ValidString_systemPrompt jsonString_userPrompt)
qed

lemma Marshal_sample:
  "Marshal \<lparr>Model = ''qwen/qwen3-4b-2507'',
            Messages = [\<lparr>Role = ''system'', Content = systemPrompt\<rparr>,
                        \<lparr>Role = ''user'', Content = userPrompt ''commit 1a2b''\<rparr>],
            Temperature = t\<rparr> =
     \<lparr>Model = ''qwen/qwen3-4b-2507'',
      Messages = [\<lparr>Role = ''system'', Content = systemPrompt\<rparr>,
                  \<lparr>Role = ''user'', Content = userPrompt ''commit 1a2b''\<rparr>],
      Temperature = t\<rparr>"
proof -
  have "ValidString ''qwen/qwen3-4b-2507''" "ValidString ''system''" "ValidString ''user''"
    by (rule ValidString_ascii, simp add: byte_def)+
  moreover have "ValidString (userPrompt ''commit 1a2b'')"
    by (simp only: userPrompt_eq, rule ValidString_ascii, simp add: byte_def)
  ultimately show ?thesis
    by (intro Marshal_valid) (simp_all add: ValidString_systemPrompt)
qed

lemma Marshal_sample0:
  "Marshal \<lparr>Model = ''llama-3'',
            Messages = [\<lparr>Role = ''system'', Content = systemPrompt0\<rparr>,
                        \<lparr>Role = ''user'', Content = userPrompt ''commit 1a2b''\<rparr>],
            Temperature = t\<rparr> =
     \<lparr>Model = ''llama-3'',
      Messages = [\<lparr>Role = ''system'', Content = systemPrompt0\<rparr>,
                  \<lparr>Role = ''user'', Content = userPrompt ''commit 1a2b''\<rparr>],
      Temperature = t\<rparr>"
proof -
  have "ValidString ''llama-3''" "ValidString ''system''" "ValidString ''user''"
    by (rule ValidString_ascii, simp add: byte_def)+
  moreover have "ValidString (userPrompt ''commit 1a2b'')"
    by (simp only: userPrompt_eq, rule ValidString_ascii, simp add: byte_def)
  ultimately show ?thesis
    by (intro Marshal_valid) (simp_all add: ValidString_systemPrompt0)
qed

lemma clientPost_trace:
  "clientPost w t url hdrs body s = (r, s') \<Longrightarrow> trace s' = trace s @ [Post url hdrs body r]"
  by (auto simp: clientPost_def emit_def advance_def Let_def split: prod.splits)

lemma sendChat_posts:
  "posts (trace (snd (sendChat w baseURL apiKey reqBody s))) =
     posts (trace s) @
     (if marshals reqBody \<and> NewRequestOK w (TrimRight baseURL ''/'' @ ''/chat/completions'')
      then [(TrimRight baseURL ''/'' @ ''/chat/completions'',
             [(''Content-Type'', ''application/json''), (''Authorization'', ''Bearer '' @ apiKey)],
             Marshal reqBody)]
      else [])"
proof (cases "marshals reqBody \<and> NewRequestOK w (TrimRight baseURL ''/'' @ ''/chat/completions'')")
  case False
  then show ?thesis by (auto simp: sendChat_def Let_def)
next
  case True
  let ?url = "TrimRight baseURL ''/'' @ ''/chat/completions''"
  let ?hdrs = "[(''Content-Type'', ''application/json''), (''Authorization'', ''Bearer '' @ apiKey)]"
  obtain r s1 where p: "clientPost w (60 * Second) ?url ?hdrs (Marshal reqBody) s = (r, s1)"
    by (cases "clientPost w (60 * Second) ?url ?hdrs (Marshal reqBody) s")
  then have t: "trace s1 = trace s @ [Post ?url ?hdrs (Marshal reqBody) r]"
    by (rule clientPost_trace)
  have "snd (sendChat w baseURL apiKey reqBody s) = s1"
    using True p
    by (simp add: sendChat_def Let_def split: http_reply.split option.split list.split)
  with t True show ?thesis
    by (simp add: posts_append)
qed

lemma ExplainCommit_posts:
  "posts (trace (snd (ExplainCommit w commitText s))) =
     posts (trace s) @
     (if fst (StartLMStudio w s) = Inr () \<and> isFinite (temperature w) \<and>
         NewRequestOK w ''http://localhost:1234/v1/chat/completions''
      then [(''http://localhost:1234/v1/chat/completions'',
             [(''Content-Type'', ''application/json''), (''Authorization'', ''Bearer lm-studio'')],
             Marshal
               \<lparr>Model = ''qwen/qwen3-4b-2507'',
                Messages = [\<lparr>Role = ''system'', Content = systemPrompt\<rparr>,
                            \<lparr>Role = ''user'', Content = userPrompt commitText\<rparr>],
                Temperature = temperature w\<rparr>)]
      else [])"
proof -
  obtain r s1 where st: "StartLMStudio w s = (r, s1)"
    by (cases "StartLMStudio w s")
  then have q: "posts (trace s1) = posts (trace s)"
    using steps_StartLMStudio steps_posts by blast
  show ?thesis
  proof (cases r)
    case (Inl e)
    with st q show ?thesis by (simp add: ExplainCommit_def)
  next
    case (Inr u)
    with st q show ?thesis
      by (simp add: ExplainCommit_def sendChat_posts chat_url marshals_def defaultModel_def defaultAPIKey_def)
  qed
qed

lemma chatWorld_start:
  "StartLMStudio (chatWorld env reply resp) start0 =
     (Inr (), \<lparr>now = 2000,
               trace = [Get ''http://localhost:1234/v1/models'' (Response 200 ''{}''),
                        Exec [''lms'', ''version''] \<lparr>failed = True, out = [], diag = []\<rparr>]\<rparr>)"
  by (simp add: StartLMStudio_def IsRunning_def isLMSCLIAvailable_def clientGet_def
      runCommandContext_def chatWorld_def start0_def defaultBaseURL_def TrimRight_def
      StatusOK_def Second_def emit_def advance_def Let_def)

lemma ExplainCommit_sent:
  "posts (trace (snd (ExplainCommit w commitText s))) =
     posts (trace s) @
     (if fst (StartLMStudio w s) = Inr () \<and> isFinite (temperature w) \<and>
         NewRequestOK w ''http://localhost:1234/v1/chat/completions''
      then [(''http://localhost:1234/v1/chat/completions'',
             [(''Content-Type'', ''application/json''), (''Authorization'', ''Bearer lm-studio'')],
             \<lparr>Model = ''qwen/qwen3-4b-2507'',
              Messages =
                [\<lparr>Role = ''system'', Content = systemPrompt\<rparr>,
                 \<lparr>Role = ''user'',
                  Content = ''Here is the latest commit on the current branch:\<newline>\<newline>'' @
                            jsonString commitText @
                            ''\<newline>\<newline>Explain this commit following the rules.''\<rparr>],
              Temperature = temperature w\<rparr>)]
      else [])"
  by (simp only: ExplainCommit_posts Marshal_request)

text \<open>
  C5 (as the program has it). Whatever the commit text, \<open>ExplainCommit\<close> sends at most
  one chat request; it sends it exactly when \<open>StartLMStudio\<close> succeeded, the temperature
  is finite (so that the request can be marshalled) and the HTTP request could be
  created. The payload then has exactly two messages: the first has role \<open>system\<close> and
  the fixed instruction as its content, the second has role \<open>user\<close>, and its content is
  the commit text as \<open>json.Marshal\<close> writes it, between a fixed opening and a fixed
  closing line. \<open>json.Marshal\<close> writes the commit text with every byte that does not
  begin a valid UTF-8 encoding replaced by U+FFFD; so the payload holds the commit text
  itself, byte for byte, exactly when the commit text is valid UTF-8.
\<close>

theorem ExplainCommit_payload:
  "posts (trace (snd (ExplainCommit w commitText s))) =
     posts (trace s) @
     (if fst (StartLMStudio w s) = Inr () \<and> isFinite (temperature w) \<and>
         NewRequestOK w ''http://localhost:1234/v1/chat/completions''
      then [(''http://localhost:1234/v1/chat/completions'',
             [(''Content-Type'', ''application/json''), (''Authorization'', ''Bearer lm-studio'')],
             \<lparr>Model = ''qwen/qwen3-4b-2507'',
              Messages =
                [\<lparr>Role = ''system'', Content = systemPrompt\<rparr>,
                 \<lparr>Role = ''user'',
                  Content = ''Here is the latest commit on the current branch:\<newline>\<newline>'' @
                            jsonString commitText @
                            ''\<newline>\<newline>Explain this commit following the rules.''\<rparr>],
              Temperature = temperature w\<rparr>)]
      else []) \<and>
   (ValidString commitText \<longrightarrow> jsonString commitText = commitText) \<and>
   (\<not> ValidString commitText \<longrightarrow> jsonString commitText \<noteq> commitText)"
  using ExplainCommit_sent [of w commitText s] jsonString_id [of commitText] by blast

theorem ExplainCommit_payload_witness:
  "ValidString ''commit 1a2b'' \<and>
   posts (trace (snd (ExplainCommit
       (chatWorld (\<lambda>k. []) (Response 200 ''{}'') \<lparr>Choices = []\<rparr>) ''commit 1a2b'' start0))) =
     [(''http://localhost:1234/v1/chat/completions'',
       [(''Content-Type'', ''application/json''), (''Authorization'', ''Bearer lm-studio'')],
       \<lparr>Model = ''qwen/qwen3-4b-2507'',
        Messages =
          [\<lparr>Role = ''system'', Content = systemPrompt\<rparr>,
           \<lparr>Role = ''user'',
            Content = ''Here is the latest commit on the current branch:\<newline>\<newline>'' @
                      ''commit 1a2b'' @
                      ''\<newline>\<newline>Explain this commit following the rules.''\<rparr>],
        Temperature = Finite 0.2\<rparr>)] \<and>
   \<not> ValidString (''caf'' @ [CHR 0xE9] @ '' 1a2b'') \<and>
   jsonString (''caf'' @ [CHR 0xE9] @ '' 1a2b'') \<noteq> ''caf'' @ [CHR 0xE9] @ '' 1a2b''"
proof -
  let ?w = "chatWorld (\<lambda>k. []) (Response 200 ''{}'') \<lparr>Choices = []\<rparr>"
  have t: "temperature ?w = Finite 0.2"
    by (simp add: temperature_def chatWorld_def)
  have n: "NewRequestOK ?w ''http://localhost:1234/v1/chat/completions''"
    by (simp add: chatWorld_def)
  have p: "posts (trace start0) = []"
    by (simp add: start0_def)
  have v: "ValidString ''commit 1a2b''"
    by code_simp
  have i: "\<not> ValidString (''caf'' @ [CHR 0xE9] @ '' 1a2b'')"
    by code_simp
  from ExplainCommit_payload [of ?w "''commit 1a2b''" start0] v
  have "posts (trace (snd (ExplainCommit ?w ''commit 1a2b'' start0))) =
     [(''http://localhost:1234/v1/chat/completions'',
       [(''Content-Type'', ''application/json''), (''Authorization'', ''Bearer lm-studio'')],
       \<lparr>Model = ''qwen/qwen3-4b-2507'',
        Messages =
          [\<lparr>Role = ''system'', Content = systemPrompt\<rparr>,
           \<lparr>Role = ''user'',
            Content = ''Here is the latest commit on the current branch:\<newline>\<newline>'' @
                      ''commit 1a2b'' @
                      ''\<newline>\<newline>Explain this commit following the rules.''\<rparr>],
        Temperature = Finite 0.2\<rparr>)]"
    using t n p by (simp add: chatWorld_start)
  moreover from ExplainCommit_payload [of ?w "''caf'' @ [CHR 0xE9] @ '' 1a2b''" start0] i
  have "jsonString (''caf'' @ [CHR 0xE9] @ '' 1a2b'') \<noteq> ''caf'' @ [CHR 0xE9] @ '' 1a2b''"
    by blast
  ultimately show ?thesis
    using v i by blast
qed

text \<open>
  A commit text that does not reach the server as it is: the commit touches a file in
  Latin-1, and \<open>git show\<close> prints the byte E9 (a lone lead byte, not valid UTF-8) in the
  line \<open>caf\<close>E9\<open> 1a2b\<close>. The user message that is sent holds the three bytes EF BF BD of
  U+FFFD in the place of that byte, and the commit text occurs nowhere in it.
\<close>

theorem ExplainCommit_payload_not_verbatim:
  "posts (trace (snd (ExplainCommit
       (chatWorld (\<lambda>k. []) (Response 200 ''{}'') \<lparr>Choices = []\<rparr>)
       (''caf'' @ [CHR 0xE9] @ '' 1a2b'') start0))) =
     [(''http://localhost:1234/v1/chat/completions'',
       [(''Content-Type'', ''application/json''), (''Authorization'', ''Bearer lm-studio'')],
       \<lparr>Model = ''qwen/qwen3-4b-2507'',
        Messages =
          [\<lparr>Role = ''system'', Content = systemPrompt\<rparr>,
           \<lparr>Role = ''user'',
            Content = ''Here is the latest commit on the current branch:\<newline>\<newline>'' @
                      ''caf'' @ [CHR 0xEF, CHR 0xBF, CHR 0xBD] @ '' 1a2b'' @
                      ''\<newline>\<newline>Explain this commit following the rules.''\<rparr>],
        Temperature = Finite 0.2\<rparr>)] \<and>
   \<not> sublist (''caf'' @ [CHR 0xE9] @ '' 1a2b'')
       (''Here is the latest commit on the current branch:\<newline>\<newline>'' @
        ''caf'' @ [CHR 0xEF, CHR 0xBF, CHR 0xBD] @ '' 1a2b'' @
        ''\<newline>\<newline>Explain this commit following the rules.'')"
proof -
  let ?w = "chatWorld (\<lambda>k. []) (Response 200 ''{}'') \<lparr>Choices = []\<rparr>"
  have t: "temperature ?w = Finite 0.2"
    by (simp add: temperature_def chatWorld_def)
  have n: "NewRequestOK ?w ''http://localhost:1234/v1/chat/completions''"
    by (simp add: chatWorld_def)
  have p: "posts (trace start0) = []"
    by (simp add: start0_def)
  have j: "jsonString (''caf'' @ [CHR 0xE9] @ '' 1a2b'') =
             ''caf'' @ [CHR 0xEF, CHR 0xBF, CHR 0xBD] @ '' 1a2b''"
    by code_simp
  have "posts (trace (snd (ExplainCommit ?w (''caf'' @ [CHR 0xE9] @ '' 1a2b'') start0))) =
     [(''http://localhost:1234/v1/chat/completions'',
       [(''Content-Type'', ''application/json''), (''Authorization'', ''Bearer lm-studio'')],
       \<lparr>Model = ''qwen/qwen3-4b-2507'',
        Messages =
          [\<lparr>Role = ''system'', Content = systemPrompt\<rparr>,
           \<lparr>Role = ''user'',
            Content = ''Here is the latest commit on the current branch:\<newline>\<newline>'' @
                      ''caf'' @ [CHR 0xEF, CHR 0xBF, CHR 0xBD] @ '' 1a2b'' @
                      ''\<newline>\<newline>Explain this commit following the rules.''\<rparr>],
        Temperature = Finite 0.2\<rparr>)]"
    unfolding ExplainCommit_sent j using t n p by (simp add: chatWorld_start)
  moreover have "\<not> sublist (''caf'' @ [CHR 0xE9] @ '' 1a2b'')
       (''Here is the latest commit on the current branch:\<newline>\<newline>'' @
        ''caf'' @ [CHR 0xEF, CHR 0xBF, CHR 0xBD] @ '' 1a2b'' @
        ''\<newline>\<newline>Explain this commit following the rules.'')"
    by code_simp
  ultimately show ?thesis by (rule conjI)
qed


text \<open>
  C9. With \<open>EXPLAIN_TEMPERATURE\<close> set to \<open>0.7\<close> (which \<open>strconv.ParseFloat\<close> reads as the
  number 0.7), the payload that \<open>ExplainCommit\<close> sends has temperature 0.7. With
  \<open>EXPLAIN_TEMPERATURE\<close> set to a value that \<open>strconv.ParseFloat\<close> rejects, the payload
  has the default temperature 0.2. (In both cases the payload goes out when
  \<open>StartLMStudio\<close> succeeded and the HTTP request could be created.)
\<close>

theorem ExplainCommit_temperature:
  "(Getenv w ''EXPLAIN_TEMPERATURE'' = ''0.7'' \<and> ParseFloat w ''0.7'' = Some (Finite 0.7) \<and>
    fst (StartLMStudio w s) = Inr () \<and>
    NewRequestOK w ''http://localhost:1234/v1/chat/completions'' \<longrightarrow>
      temperatures (trace (snd (ExplainCommit w commitText s))) =
        temperatures (trace s) @ [Finite 0.7]) \<and>
   (Getenv w ''EXPLAIN_TEMPERATURE'' \<noteq> [] \<and>
    ParseFloat w (Getenv w ''EXPLAIN_TEMPERATURE'') = None \<and>
    fst (StartLMStudio w s) = Inr () \<and>
    NewRequestOK w ''http://localhost:1234/v1/chat/completions'' \<longrightarrow>
      temperatures (trace (snd (ExplainCommit w commitText s))) =
        temperatures (trace s) @ [Finite 0.2])"
  by (simp add: temperatures_def ExplainCommit_posts temperature_def Marshal_def)

theorem ExplainCommit_temperature_witness:
  "temperatures (trace (snd (ExplainCommit
       (chatWorld (setTemperature ''0.7'') (Response 200 ''{}'') \<lparr>Choices = []\<rparr>)
       ''commit 1a2b'' start0))) = [Finite 0.7] \<and>
   temperatures (trace (snd (ExplainCommit
       (chatWorld (setTemperature ''warm'') (Response 200 ''{}'') \<lparr>Choices = []\<rparr>)
       ''commit 1a2b'' start0))) = [Finite 0.2]"
proof -
  let ?w1 = "chatWorld (setTemperature ''0.7'') (Response 200 ''{}'') \<lparr>Choices = []\<rparr>"
  let ?w2 = "chatWorld (setTemperature ''warm'') (Response 200 ''{}'') \<lparr>Choices = []\<rparr>"
  have e1: "Getenv ?w1 ''EXPLAIN_TEMPERATURE'' = ''0.7'' \<and> ParseFloat ?w1 ''0.7'' = Some (Finite 0.7)"
    by (simp add: chatWorld_def setTemperature_def)
  have e2: "Getenv ?w2 ''EXPLAIN_TEMPERATURE'' \<noteq> [] \<and>
            ParseFloat ?w2 (Getenv ?w2 ''EXPLAIN_TEMPERATURE'') = None"
    by (simp add: chatWorld_def setTemperature_def)
  have n: "\<And>env. NewRequestOK (chatWorld env (Response 200 ''{}'') \<lparr>Choices = []\<rparr>)
             ''http://localhost:1234/v1/chat/completions''"
    by (simp add: chatWorld_def)
  have t0: "temperatures (trace start0) = []"
    by (simp add: temperatures_def start0_def)
  show ?thesis
    using ExplainCommit_temperature [of ?w1 start0 "''commit 1a2b''"]
          ExplainCommit_temperature [of ?w2 start0 "''commit 1a2b''"] e1 e2 n t0
    by (simp add: chatWorld_start)
qed


section \<open>Properties of the reply\<close>

lemma IsRunning_trace:
  "IsRunning w baseURL s = (b, s') \<Longrightarrow>
   \<exists>r. trace s' = trace s @
          [Get (TrimRight (if baseURL = [] then defaultBaseURL else baseURL) ''/'' @ ''/models'') r]"
  by (auto simp: IsRunning_def clientGet_def emit_def advance_def Let_def
      split: prod.splits http_reply.splits)

lemma steps_after_probe:
  assumes "IsRunning w defaultBaseURL s = (b, s0)"
  shows "steps s0 (snd (StartLMStudio w s))"
  unfolding StartLMStudio_def assms prod.case
  by (simp only: snd_conv | intro allI impI conjI | rule steps_refl
      | split bool.split | split sum.split | split prod.split | erule via)+

lemma StartLMStudio_last:
  "trace (snd (StartLMStudio w s)) \<noteq> [] \<and> \<not> isPost (last (trace (snd (StartLMStudio w s))))"
proof -
  obtain b s0 where p: "IsRunning w defaultBaseURL s = (b, s0)"
    by (cases "IsRunning w defaultBaseURL s")
  then obtain r where r: "trace s0 = trace s @ [Get (TrimRight defaultBaseURL ''/'' @ ''/models'') r]"
    using IsRunning_trace [OF p] by (auto simp: defaultBaseURL_def)
  from steps_after_probe [OF p] obtain evs where
    evs: "trace (snd (StartLMStudio w s)) = trace s0 @ evs" "list_all (\<lambda>e. \<not> isPost e) evs"
    by (auto simp: steps_def)
  show ?thesis
  proof (cases "evs = []")
    case True
    with evs r show ?thesis by simp
  next
    case False
    with evs have "last (trace (snd (StartLMStudio w s))) = last evs" by simp
    moreover from False evs(2) have "\<not> isPost (last evs)"
      by (simp add: list_all_iff)
    ultimately show ?thesis using evs r by simp
  qed
qed

lemma sendChat_trace:
  assumes "marshals req" and "NewRequestOK w (TrimRight baseURL ''/'' @ ''/chat/completions'')"
  shows "trace (snd (sendChat w baseURL apiKey req s)) =
           trace s @
           [Post (TrimRight baseURL ''/'' @ ''/chat/completions'')
              [(''Content-Type'', ''application/json''), (''Authorization'', ''Bearer '' @ apiKey)]
              (Marshal req)
              (fst (clientPost w (60 * Second) (TrimRight baseURL ''/'' @ ''/chat/completions'')
                 [(''Content-Type'', ''application/json''),
                  (''Authorization'', ''Bearer '' @ apiKey)] (Marshal req) s))]"
proof -
  let ?url = "TrimRight baseURL ''/'' @ ''/chat/completions''"
  let ?hdrs = "[(''Content-Type'', ''application/json''), (''Authorization'', ''Bearer '' @ apiKey)]"
  obtain r s1 where p: "clientPost w (60 * Second) ?url ?hdrs (Marshal req) s = (r, s1)"
    by (cases "clientPost w (60 * Second) ?url ?hdrs (Marshal req) s")
  then have t: "trace s1 = trace s @ [Post ?url ?hdrs (Marshal req) r]"
    by (rule clientPost_trace)
  have "snd (sendChat w baseURL apiKey req s) = s1"
    using assms p
    by (simp add: sendChat_def Let_def split: http_reply.split option.split list.split)
  with t p show ?thesis by simp
qed

text \<open>
  C6. Suppose the run of \<open>ExplainCommit\<close> ends with its chat request answered by a
  response of status 200, and the body of the response decodes to \<open>resp\<close>. If \<open>resp\<close>
  has a first choice whose message content \<open>X\<close> is not empty, \<open>ExplainCommit\<close> returns
  \<open>X\<close> trimmed of surrounding white space. If \<open>resp\<close> has no choice, or the content of
  its first choice is empty, \<open>ExplainCommit\<close> fails with ``invalid response: missing
  choices[0].message.content'', the empty-response error.
\<close>

theorem ExplainCommit_response:
  assumes "last (trace (snd (ExplainCommit w commitText s))) = Post url hdrs req (Response 200 body)"
    and "Decode w body = Some resp"
  shows "(\<forall>c cs. Choices resp = c # cs \<and> Content (Message c) \<noteq> [] \<longrightarrow>
            fst (ExplainCommit w commitText s) = Inr (TrimSpace (Content (Message c)))) \<and>
         (Choices resp = [] \<or> (\<exists>c cs. Choices resp = c # cs \<and> Content (Message c) = []) \<longrightarrow>
            fst (ExplainCommit w commitText s) = Inl MissingContent)"
proof -
  let ?req = "\<lparr>Model = defaultModel,
               Messages = [\<lparr>Role = ''system'', Content = systemPrompt\<rparr>,
                           \<lparr>Role = ''user'', Content = userPrompt commitText\<rparr>],
               Temperature = temperature w\<rparr>"
  let ?url = "TrimRight defaultBaseURL ''/'' @ ''/chat/completions''"
  let ?hdrs = "[(''Content-Type'', ''application/json''),
                (''Authorization'', ''Bearer '' @ defaultAPIKey)]"
  obtain r1 s1 where st: "StartLMStudio w s = (r1, s1)"
    by (cases "StartLMStudio w s")
  have nl: "\<not> isPost (last (trace s1))"
    using StartLMStudio_last [of w s] st by simp
  have post: "isPost (last (trace (snd (ExplainCommit w commitText s))))"
    using assms(1) by simp
  have ok: "r1 = Inr ()"
  proof (cases r1)
    case (Inl e)
    with st have "snd (ExplainCommit w commitText s) = s1"
      by (simp add: ExplainCommit_def)
    with nl post show ?thesis by simp
  qed simp
  then have ec: "ExplainCommit w commitText s = sendChat w defaultBaseURL defaultAPIKey ?req s1"
    using st by (simp add: ExplainCommit_def)
  have sendable: "marshals ?req \<and> NewRequestOK w ?url"
  proof (rule ccontr)
    assume "\<not> (marshals ?req \<and> NewRequestOK w ?url)"
    then have "snd (sendChat w defaultBaseURL defaultAPIKey ?req s1) = s1"
      by (auto simp: sendChat_def Let_def)
    with ec nl post show False by simp
  qed
  obtain r s2 where p: "clientPost w (60 * Second) ?url ?hdrs (Marshal ?req) s1 = (r, s2)"
    by (cases "clientPost w (60 * Second) ?url ?hdrs (Marshal ?req) s1")
  then have t: "trace s2 = trace s1 @ [Post ?url ?hdrs (Marshal ?req) r]"
    by (rule clientPost_trace)
  have "snd (sendChat w defaultBaseURL defaultAPIKey ?req s1) = s2"
    using sendable p
    by (simp add: sendChat_def Let_def split: http_reply.split option.split list.split)
  with ec t assms(1) have r: "r = Response 200 body"
    by simp
  show ?thesis
    using ec sendable p r assms(2)
    by (auto simp: sendChat_def Let_def StatusOK_def)
qed

theorem ExplainCommit_response_witness:
  "fst (ExplainCommit
      (chatWorld (\<lambda>k. []) (Response 200 ''{}'')
         \<lparr>Choices = [\<lparr>Message = \<lparr>Role = ''assistant'', Content = '' It renames a flag.\<newline>''\<rparr>\<rparr>]\<rparr>)
      ''commit 1a2b'' start0) = Inr ''It renames a flag.'' \<and>
   fst (ExplainCommit (chatWorld (\<lambda>k. []) (Response 200 ''{}'') \<lparr>Choices = []\<rparr>)
      ''commit 1a2b'' start0) = Inl MissingContent \<and>
   fst (ExplainCommit
      (chatWorld (\<lambda>k. []) (Response 200 ''{}'')
         \<lparr>Choices = [\<lparr>Message = \<lparr>Role = ''assistant'', Content = []\<rparr>\<rparr>]\<rparr>)
      ''commit 1a2b'' start0) = Inl MissingContent"
proof -
  let ?c1 = "\<lparr>Message = \<lparr>Role = ''assistant'', Content = '' It renames a flag.\<newline>''\<rparr>\<rparr>"
  let ?c3 = "\<lparr>Message = \<lparr>Role = ''assistant'', Content = []\<rparr>\<rparr>"
  let ?req = "\<lparr>Model = defaultModel,
               Messages = [\<lparr>Role = ''system'', Content = systemPrompt\<rparr>,
                           \<lparr>Role = ''user'', Content = userPrompt ''commit 1a2b''\<rparr>],
               Temperature = Finite 0.2\<rparr>"
  have c: "\<And>resp url hdrs req s.
             fst (clientPost (chatWorld (\<lambda>k. []) (Response 200 ''{}'') resp)
                    (60 * Second) url hdrs req s) = Response 200 ''{}''"
    by (simp add: clientPost_def chatWorld_def Second_def Let_def)
  have m: "\<And>resp. marshals ?req \<and>
             NewRequestOK (chatWorld (\<lambda>k. []) (Response 200 ''{}'') resp)
               (TrimRight defaultBaseURL ''/'' @ ''/chat/completions'')"
    by (simp add: marshals_def chatWorld_def)
  have tw: "\<And>resp. temperature (chatWorld (\<lambda>k. []) (Response 200 ''{}'') resp) = Finite 0.2"
    by (simp add: temperature_def chatWorld_def)
  have l: "\<And>resp. last (trace (snd (ExplainCommit (chatWorld (\<lambda>k. []) (Response 200 ''{}'') resp)
                ''commit 1a2b'' start0))) =
             Post ''http://localhost:1234/v1/chat/completions''
               [(''Content-Type'', ''application/json''), (''Authorization'', ''Bearer lm-studio'')]
               (Marshal ?req) (Response 200 ''{}'')"
    using m by (simp add: ExplainCommit_def chatWorld_start tw sendChat_trace chat_url c
        defaultAPIKey_def)
  have d: "\<And>resp. Decode (chatWorld (\<lambda>k. []) (Response 200 ''{}'') resp) ''{}'' = Some resp"
    by (simp add: chatWorld_def)
  have t: "TrimSpace '' It renames a flag.\<newline>'' = ''It renames a flag.''"
    by code_simp
  from ExplainCommit_response [OF l d, of "\<lparr>Choices = [?c1]\<rparr>"] t
  have "fst (ExplainCommit (chatWorld (\<lambda>k. []) (Response 200 ''{}'') \<lparr>Choices = [?c1]\<rparr>)
          ''commit 1a2b'' start0) = Inr ''It renames a flag.''"
    by simp
  moreover from ExplainCommit_response [OF l d, of "\<lparr>Choices = []\<rparr>"]
  have "fst (ExplainCommit (chatWorld (\<lambda>k. []) (Response 200 ''{}'') \<lparr>Choices = []\<rparr>)
          ''commit 1a2b'' start0) = Inl MissingContent"
    by simp
  moreover from ExplainCommit_response [OF l d, of "\<lparr>Choices = [?c3]\<rparr>"]
  have "fst (ExplainCommit (chatWorld (\<lambda>k. []) (Response 200 ''{}'') \<lparr>Choices = [?c3]\<rparr>)
          ''commit 1a2b'' start0) = Inl MissingContent"
    by simp
  ultimately show ?thesis by simp
qed


section \<open>Properties of the configuration\<close>

lemma env_clientGet: "clientGet (w\<lparr>Getenv := g\<rparr>) t url s = clientGet w t url s"
  by (simp add: clientGet_def)

lemma env_clientPost: "clientPost (w\<lparr>Getenv := g\<rparr>) t url hdrs body s = clientPost w t url hdrs body s"
  by (simp add: clientPost_def)

lemma env_runCommand: "runCommand (w\<lparr>Getenv := g\<rparr>) argv s = runCommand w argv s"
  by (simp add: runCommand_def)

lemma env_runCommandContext:
  "runCommandContext (w\<lparr>Getenv := g\<rparr>) t argv s = runCommandContext w t argv s"
  by (simp add: runCommandContext_def)

lemma env_outputCommandContext:
  "outputCommandContext (w\<lparr>Getenv := g\<rparr>) t argv s = outputCommandContext w t argv s"
  by (simp add: outputCommandContext_def)

lemma env_IsRunning: "IsRunning (w\<lparr>Getenv := g\<rparr>) baseURL s = IsRunning w baseURL s"
  by (simp add: IsRunning_def env_clientGet)

lemma env_isLMSCLIAvailable: "isLMSCLIAvailable (w\<lparr>Getenv := g\<rparr>) s = isLMSCLIAvailable w s"
  by (simp add: isLMSCLIAvailable_def env_runCommandContext)

lemma env_isModelLoaded: "isModelLoaded (w\<lparr>Getenv := g\<rparr>) m s = isModelLoaded w m s"
  by (simp add: isModelLoaded_def env_outputCommandContext)

lemma env_loadModel: "loadModel (w\<lparr>Getenv := g\<rparr>) m s = loadModel w m s"
  by (simp add: loadModel_def env_outputCommandContext)

lemma env_startServerWithCLI: "startServerWithCLI (w\<lparr>Getenv := g\<rparr>) s = startServerWithCLI w s"
  by (simp add: startServerWithCLI_def env_runCommand)

lemma env_waitLoop: "waitLoop (w\<lparr>Getenv := g\<rparr>) baseURL deadline s = waitLoop w baseURL deadline s"
proof (induction w baseURL deadline s rule: waitLoop.induct)
  case (1 w baseURL deadline s)
  show ?case
  proof (cases "now s < deadline")
    case False
    then show ?thesis
      by (subst waitLoop.simps, subst (2) waitLoop.simps) simp
  next
    case True
    obtain b s1 where p: "IsRunning w baseURL s = (b, s1)"
      by (cases "IsRunning w baseURL s")
    show ?thesis
    proof (cases b)
      case True
      with \<open>now s < deadline\<close> p show ?thesis
        by (subst waitLoop.simps, subst (2) waitLoop.simps) (simp add: env_IsRunning)
    next
      case False
      with "1.IH" [OF True p [symmetric]]
      have "waitLoop (w\<lparr>Getenv := g\<rparr>) baseURL deadline (sleep (1 * Second) s1)
              = waitLoop w baseURL deadline (sleep (1 * Second) s1)"
        by simp
      with \<open>now s < deadline\<close> p False show ?thesis
        by (subst waitLoop.simps, subst (2) waitLoop.simps) (simp add: env_IsRunning)
    qed
  qed
qed

lemma env_waitForServer: "waitForServer (w\<lparr>Getenv := g\<rparr>) baseURL t s = waitForServer w baseURL t s"
  by (simp add: waitForServer_def env_waitLoop)

lemma env_StartLMStudio: "StartLMStudio (w\<lparr>Getenv := g\<rparr>) s = StartLMStudio w s"
  unfolding StartLMStudio_def env_IsRunning env_isLMSCLIAvailable env_isModelLoaded
      env_loadModel env_startServerWithCLI env_waitForServer
  by (rule refl)

lemma env_sendChat: "sendChat (w\<lparr>Getenv := g\<rparr>) baseURL apiKey req s = sendChat w baseURL apiKey req s"
proof -
  have f: "Decode (w\<lparr>Getenv := g\<rparr>) = Decode w"
          "NewRequestOK (w\<lparr>Getenv := g\<rparr>) = NewRequestOK w"
    by simp_all
  show ?thesis
    unfolding sendChat_def env_clientPost f by (rule refl)
qed

lemma env_temperature:
  "g ''EXPLAIN_TEMPERATURE'' = Getenv w ''EXPLAIN_TEMPERATURE'' \<Longrightarrow>
   temperature (w\<lparr>Getenv := g\<rparr>) = temperature w"
  by (simp add: temperature_def Let_def)

lemma env_ExplainCommit:
  assumes "g ''EXPLAIN_TEMPERATURE'' = Getenv w ''EXPLAIN_TEMPERATURE''"
  shows "ExplainCommit (w\<lparr>Getenv := g\<rparr>) commitText s = ExplainCommit w commitText s"
proof -
  have t: "temperature (w\<lparr>Getenv := g\<rparr>) = temperature w"
    using assms by (rule env_temperature)
  show ?thesis
    unfolding ExplainCommit_def env_StartLMStudio env_sendChat t by (rule refl)
qed

lemma explainCommit_posts:
  "posts (trace (snd (explainCommit w commitText s))) =
     posts (trace s) @
     (if Getenv w ''LMSTUDIO_MODEL'' \<noteq> [] \<and> isFinite (temperature w) \<and>
         NewRequestOK w
           (TrimRight (if Getenv w ''LMSTUDIO_BASE_URL'' = [] then ''http://localhost:1234/v1''
                       else Getenv w ''LMSTUDIO_BASE_URL'') ''/'' @ ''/chat/completions'')
      then [(TrimRight (if Getenv w ''LMSTUDIO_BASE_URL'' = [] then ''http://localhost:1234/v1''
                        else Getenv w ''LMSTUDIO_BASE_URL'') ''/'' @ ''/chat/completions'',
             [(''Content-Type'', ''application/json''),
              (''Authorization'',
               ''Bearer '' @ (if Getenv w ''LMSTUDIO_API_KEY'' = [] then ''lm-studio''
                             else Getenv w ''LMSTUDIO_API_KEY''))],
             Marshal
               \<lparr>Model = Getenv w ''LMSTUDIO_MODEL'',
                Messages = [\<lparr>Role = ''system'', Content = systemPrompt0\<rparr>,
                            \<lparr>Role = ''user'', Content = userPrompt commitText\<rparr>],
                Temperature = temperature w\<rparr>)]
      else [])"
  by (simp add: explainCommit_def sendChat_posts marshals_def Let_def)


text \<open>
  C1 (as the program has it). Of the four configuration values of \<open>ExplainCommit\<close> only
  the sampling temperature can be overridden from the environment: it is what
  \<open>EXPLAIN_TEMPERATURE\<close> parses to, and the default 0.2 when that variable is absent (or
  does not parse). The base URL, the model identifier and the API key are the hardcoded
  defaults whatever the environment holds: two environments that agree on
  \<open>EXPLAIN_TEMPERATURE\<close> give the same run, and a request that is sent goes to
  \<open>http://localhost:1234/v1/chat/completions\<close> for the model \<open>qwen/qwen3-4b-2507\<close> with
  the bearer token \<open>lm-studio\<close>. (A request goes out as \<open>json.Marshal\<close> writes it:
  \<open>Marshal\<close> of the request that the program built.)

  The single-file program (\<open>explainCommit\<close> of main.go) does read the environment: its
  base URL and API key are \<open>LMSTUDIO_BASE_URL\<close> and \<open>LMSTUDIO_API_KEY\<close>, with the same
  defaults when absent, and its temperature is resolved as above; but its model
  identifier is \<open>LMSTUDIO_MODEL\<close> with no default: when that variable is absent the call
  fails, and nothing is sent.
\<close>

theorem configuration:
  "(\<forall>g. g ''EXPLAIN_TEMPERATURE'' = Getenv w ''EXPLAIN_TEMPERATURE'' \<longrightarrow>
        ExplainCommit (w\<lparr>Getenv := g\<rparr>) commitText s = ExplainCommit w commitText s) \<and>
   posts (trace (snd (ExplainCommit w commitText s))) =
     posts (trace s) @
     (if fst (StartLMStudio w s) = Inr () \<and> isFinite (temperature w) \<and>
         NewRequestOK w ''http://localhost:1234/v1/chat/completions''
      then [(''http://localhost:1234/v1/chat/completions'',
             [(''Content-Type'', ''application/json''), (''Authorization'', ''Bearer lm-studio'')],
             Marshal
               \<lparr>Model = ''qwen/qwen3-4b-2507'',
                Messages = [\<lparr>Role = ''system'', Content = systemPrompt\<rparr>,
                            \<lparr>Role = ''user'', Content = userPrompt commitText\<rparr>],
                Temperature = temperature w\<rparr>)]
      else []) \<and>
   temperature w =
     (if Getenv w ''EXPLAIN_TEMPERATURE'' = [] then Finite 0.2
      else case ParseFloat w (Getenv w ''EXPLAIN_TEMPERATURE'') of
             Some t \<Rightarrow> t
           | None \<Rightarrow> Finite 0.2) \<and>
   posts (trace (snd (explainCommit w commitText s))) =
     posts (trace s) @
     (if Getenv w ''LMSTUDIO_MODEL'' \<noteq> [] \<and> isFinite (temperature w) \<and>
         NewRequestOK w
           (TrimRight (if Getenv w ''LMSTUDIO_BASE_URL'' = [] then ''http://localhost:1234/v1''
                       else Getenv w ''LMSTUDIO_BASE_URL'') ''/'' @ ''/chat/completions'')
      then [(TrimRight (if Getenv w ''LMSTUDIO_BASE_URL'' = [] then ''http://localhost:1234/v1''
                        else Getenv w ''LMSTUDIO_BASE_URL'') ''/'' @ ''/chat/completions'',
             [(''Content-Type'', ''application/json''),
              (''Authorization'',
               ''Bearer '' @ (if Getenv w ''LMSTUDIO_API_KEY'' = [] then ''lm-studio''
                             else Getenv w ''LMSTUDIO_API_KEY''))],
             Marshal
               \<lparr>Model = Getenv w ''LMSTUDIO_MODEL'',
                Messages = [\<lparr>Role = ''system'', Content = systemPrompt0\<rparr>,
                            \<lparr>Role = ''user'', Content = userPrompt commitText\<rparr>],
                Temperature = temperature w\<rparr>)]
      else []) \<and>
   (Getenv w ''LMSTUDIO_MODEL'' = [] \<longrightarrow> explainCommit w commitText s = (Inl ModelNotSet, s))"
proof -
  have "temperature w =
     (if Getenv w ''EXPLAIN_TEMPERATURE'' = [] then Finite 0.2
      else case ParseFloat w (Getenv w ''EXPLAIN_TEMPERATURE'') of
             Some t \<Rightarrow> t
           | None \<Rightarrow> Finite 0.2)"
    by (simp add: temperature_def Let_def)
  moreover have "Getenv w ''LMSTUDIO_MODEL'' = [] \<longrightarrow>
      explainCommit w commitText s = (Inl ModelNotSet, s)"
    by (simp add: explainCommit_def)
  ultimately show ?thesis
    using env_ExplainCommit [of _ w commitText s] ExplainCommit_posts [of w commitText s]
      explainCommit_posts [of w commitText s]
    by blast
qed

theorem configuration_witness:
  "ExplainCommit ((chatWorld (\<lambda>k. []) (Response 200 ''{}'') \<lparr>Choices = []\<rparr>)\<lparr>Getenv := overrides\<rparr>)
      ''commit 1a2b'' start0 =
     ExplainCommit (chatWorld (\<lambda>k. []) (Response 200 ''{}'') \<lparr>Choices = []\<rparr>) ''commit 1a2b'' start0 \<and>
   temperatures (trace (snd (ExplainCommit
      (chatWorld (setTemperature ''0.7'') (Response 200 ''{}'') \<lparr>Choices = []\<rparr>)
      ''commit 1a2b'' start0))) = [Finite 0.7] \<and>
   temperatures (trace (snd (ExplainCommit
      (chatWorld (\<lambda>k. []) (Response 200 ''{}'') \<lparr>Choices = []\<rparr>)
      ''commit 1a2b'' start0))) = [Finite 0.2] \<and>
   posts (trace (snd (explainCommit (chatWorld overrides (Response 200 ''{}'') \<lparr>Choices = []\<rparr>)
      ''commit 1a2b'' start0))) =
     [(''http://10.0.0.5:8080/v1/chat/completions'',
       [(''Content-Type'', ''application/json''), (''Authorization'', ''Bearer secret'')],
       \<lparr>Model = ''llama-3'',
        Messages = [\<lparr>Role = ''system'', Content = systemPrompt0\<rparr>,
                    \<lparr>Role = ''user'', Content = userPrompt ''commit 1a2b''\<rparr>],
        Temperature = Finite 0.2\<rparr>)] \<and>
   explainCommit (chatWorld (\<lambda>k. []) (Response 200 ''{}'') \<lparr>Choices = []\<rparr>) ''commit 1a2b'' start0
     = (Inl ModelNotSet, start0)"
proof -
  let ?w0 = "chatWorld (\<lambda>k. []) (Response 200 ''{}'') \<lparr>Choices = []\<rparr>"
  let ?w7 = "chatWorld (setTemperature ''0.7'') (Response 200 ''{}'') \<lparr>Choices = []\<rparr>"
  let ?wo = "chatWorld overrides (Response 200 ''{}'') \<lparr>Choices = []\<rparr>"
  have g: "overrides ''EXPLAIN_TEMPERATURE'' = Getenv ?w0 ''EXPLAIN_TEMPERATURE''"
    by (simp add: overrides_def chatWorld_def)
  have m: "Getenv ?w0 ''LMSTUDIO_MODEL'' = []"
    by (simp add: chatWorld_def)
  have t0: "temperature ?w0 = Finite 0.2" "temperature ?wo = Finite 0.2"
    by (simp_all add: temperature_def chatWorld_def overrides_def)
  have t7: "temperature ?w7 = Finite 0.7"
    by (simp add: temperature_def chatWorld_def setTemperature_def)
  have n: "\<And>env u. NewRequestOK (chatWorld env (Response 200 ''{}'') \<lparr>Choices = []\<rparr>) u"
    by (simp add: chatWorld_def)
  have e: "Getenv ?wo = overrides"
    by (simp add: chatWorld_def)
  have u: "TrimRight ''http://10.0.0.5:8080/v1'' ''/'' = ''http://10.0.0.5:8080/v1''"
    by (simp add: TrimRight_def)
  have p0: "posts (trace start0) = []"
    by (simp add: start0_def)
  from configuration [of ?w0 "''commit 1a2b''" start0] g m
  have "ExplainCommit (?w0\<lparr>Getenv := overrides\<rparr>) ''commit 1a2b'' start0 =
          ExplainCommit ?w0 ''commit 1a2b'' start0"
    and "explainCommit ?w0 ''commit 1a2b'' start0 = (Inl ModelNotSet, start0)"
    and "temperatures (trace (snd (ExplainCommit ?w0 ''commit 1a2b'' start0))) = [Finite 0.2]"
    by (simp_all add: temperatures_def chatWorld_start t0 n p0 Marshal_sample)
  moreover from configuration [of ?w7 "''commit 1a2b''" start0]
  have "temperatures (trace (snd (ExplainCommit ?w7 ''commit 1a2b'' start0))) = [Finite 0.7]"
    by (simp add: temperatures_def chatWorld_start t7 n p0 Marshal_sample)
  moreover from configuration [of ?wo "''commit 1a2b''" start0]
  have "posts (trace (snd (explainCommit ?wo ''commit 1a2b'' start0))) =
     [(''http://10.0.0.5:8080/v1/chat/completions'',
       [(''Content-Type'', ''application/json''), (''Authorization'', ''Bearer secret'')],
       \<lparr>Model = ''llama-3'',
        Messages = [\<lparr>Role = ''system'', Content = systemPrompt0\<rparr>,
                    \<lparr>Role = ''user'', Content = userPrompt ''commit 1a2b''\<rparr>],
        Temperature = Finite 0.2\<rparr>)]"
    by (simp add: e overrides_def u t0 n p0 Marshal_sample0)
  ultimately show ?thesis by simp
qed

text \<open>
  An override that is not honoured: with \<open>LMSTUDIO_BASE_URL\<close>, \<open>LMSTUDIO_MODEL\<close> and
  \<open>LMSTUDIO_API_KEY\<close> all set, \<open>ExplainCommit\<close> still sends its request to the default
  server, for the default model, with the default key. And a default that is missing:
  with an empty environment the single-file \<open>explainCommit\<close> fails for want of a model.
\<close>

theorem ExplainCommit_ignores_overrides:
  "Getenv (chatWorld overrides (Response 200 ''{}'') \<lparr>Choices = []\<rparr>) ''LMSTUDIO_BASE_URL''
     = ''http://10.0.0.5:8080/v1'' \<and>
   Getenv (chatWorld overrides (Response 200 ''{}'') \<lparr>Choices = []\<rparr>) ''LMSTUDIO_MODEL''
     = ''llama-3'' \<and>
   Getenv (chatWorld overrides (Response 200 ''{}'') \<lparr>Choices = []\<rparr>) ''LMSTUDIO_API_KEY''
     = ''secret'' \<and>
   posts (trace (snd (ExplainCommit (chatWorld overrides (Response 200 ''{}'') \<lparr>Choices = []\<rparr>)
      ''commit 1a2b'' start0))) =
     [(''http://localhost:1234/v1/chat/completions'',
       [(''Content-Type'', ''application/json''), (''Authorization'', ''Bearer lm-studio'')],
       \<lparr>Model = ''qwen/qwen3-4b-2507'',
        Messages = [\<lparr>Role = ''system'', Content = systemPrompt\<rparr>,
                    \<lparr>Role = ''user'', Content = userPrompt ''commit 1a2b''\<rparr>],
        Temperature = Finite 0.2\<rparr>)] \<and>
   explainCommit (chatWorld (\<lambda>k. []) (Response 200 ''{}'') \<lparr>Choices = []\<rparr>) ''commit 1a2b'' start0
     = (Inl ModelNotSet, start0)"
proof -
  let ?wo = "chatWorld overrides (Response 200 ''{}'') \<lparr>Choices = []\<rparr>"
  have t0: "temperature ?wo = Finite 0.2"
    by (simp add: temperature_def chatWorld_def overrides_def)
  have n: "NewRequestOK ?wo ''http://localhost:1234/v1/chat/completions''"
    by (simp add: chatWorld_def)
  have p0: "posts (trace start0) = []"
    by (simp add: start0_def)
  have "posts (trace (snd (ExplainCommit ?wo ''commit 1a2b'' start0))) =
     [(''http://localhost:1234/v1/chat/completions'',
       [(''Content-Type'', ''application/json''), (''Authorization'', ''Bearer lm-studio'')],
       \<lparr>Model = ''qwen/qwen3-4b-2507'',
        Messages = [\<lparr>Role = ''system'', Content = systemPrompt\<rparr>,
                    \<lparr>Role = ''user'', Content = userPrompt ''commit 1a2b''\<rparr>],
        Temperature = Finite 0.2\<rparr>)]"
    by (simp add: ExplainCommit_posts chatWorld_start t0 n p0 Marshal_sample)
  moreover have "explainCommit (chatWorld (\<lambda>k. []) (Response 200 ''{}'') \<lparr>Choices = []\<rparr>)
      ''commit 1a2b'' start0 = (Inl ModelNotSet, start0)"
    by (simp add: explainCommit_def chatWorld_def)
  ultimately show ?thesis
    by (simp add: chatWorld_def overrides_def)
qed


section \<open>Properties of the wait for the server\<close>







lemma loadModel_error:
  "loadModel w m s = (Inl e, s') \<Longrightarrow> \<exists>x. e = LoadModelFailed x"
  by (auto simp: loadModel_def Let_def split: prod.splits if_splits)


lemma waitLoop_again:
  "now s < deadline \<Longrightarrow> \<not> fst (IsRunning w baseURL s) \<Longrightarrow>
   waitLoop w baseURL deadline s =
     waitLoop w baseURL deadline (sleep (1 * Second) (snd (IsRunning w baseURL s)))"
  by (subst waitLoop.simps, cases "IsRunning w baseURL s") simp

lemma waitLoop_ready:
  "now s < deadline \<Longrightarrow> fst (IsRunning w baseURL s) \<Longrightarrow>
   waitLoop w baseURL deadline s =
     (Inr (), Println ''LM Studio server is ready'' (snd (IsRunning w baseURL s)))"
  by (subst waitLoop.simps, cases "IsRunning w baseURL s") simp

lemma waitLoop_late:
  "\<not> now s < deadline \<Longrightarrow> waitLoop w baseURL deadline s = (Inl (WaitTimedOut baseURL), s)"
  by (subst waitLoop.simps) simp




lemmas run_defs = StartLMStudio_def IsRunning_def clientGet_def isLMSCLIAvailable_def
  runCommandContext_def outputCommandContext_def startServerWithCLI_def runCommand_def waitForServer_def
  isModelLoaded_def loadModel_def Println_def emit_def advance_def sleep_def
  defaultBaseURL_def defaultModel_def TrimRight_def StatusOK_def Second_def Let_def
  waitLoop_again waitLoop_ready waitLoop_late

lemma run_up:
  "StartLMStudio
     (cliWorld (upAfter 7) \<lparr>failed = False, out = ''qwen/qwen3-4b-2507'', diag = []\<rparr>
        \<lparr>failed = False, out = [], diag = []\<rparr>) start0 =
     (Inr (),
      \<lparr>now = 1000006000,
       trace =
         [Get ''http://localhost:1234/v1/models'' NetError,
          Stdout ''LM Studio server is not running\<newline>'',
          Exec [''lms'', ''version''] \<lparr>failed = False, out = [], diag = []\<rparr>,
          Stdout ''Starting LM Studio server with `lms server start`...\<newline>'',
          Exec [''lms'', ''server'', ''start''] \<lparr>failed = False, out = [], diag = []\<rparr>,
          Stdout ''Waiting for LM Studio server...\<newline>'',
          Get ''http://localhost:1234/v1/models'' NetError,
          Sleep 1000000000,
          Get ''http://localhost:1234/v1/models'' (Response 200 ''{}''),
          Stdout ''LM Studio server is ready\<newline>'',
          Exec [''lms'', ''ps''] \<lparr>failed = False, out = ''qwen/qwen3-4b-2507'', diag = []\<rparr>]\<rparr>)"
  by (simp add: run_defs cliWorld_def upAfter_def start0_def)

lemma run_down:
  "fst (StartLMStudio
     (cliWorld down \<lparr>failed = False, out = [], diag = []\<rparr>
        \<lparr>failed = False, out = [], diag = []\<rparr>) start0) =
     Inl (WaitTimedOut ''http://localhost:1234/v1'') \<and>
   now (snd (StartLMStudio
     (cliWorld down \<lparr>failed = False, out = [], diag = []\<rparr>
        \<lparr>failed = False, out = [], diag = []\<rparr>) start0)) = 35000002000"
  by (simp add: run_defs cliWorld_def down_def start0_def)






section \<open>Properties of the start of the server\<close>

lemma os_clientGet: "clientGet (w\<lparr>GOOS := g\<rparr>) t url s = clientGet w t url s"
  by (simp add: clientGet_def)

lemma os_runCommand: "runCommand (w\<lparr>GOOS := g\<rparr>) argv s = runCommand w argv s"
  by (simp add: runCommand_def)

lemma os_runCommandContext:
  "runCommandContext (w\<lparr>GOOS := g\<rparr>) t argv s = runCommandContext w t argv s"
  by (simp add: runCommandContext_def)

lemma os_outputCommandContext:
  "outputCommandContext (w\<lparr>GOOS := g\<rparr>) t argv s = outputCommandContext w t argv s"
  by (simp add: outputCommandContext_def)

lemma os_IsRunning: "IsRunning (w\<lparr>GOOS := g\<rparr>) baseURL s = IsRunning w baseURL s"
  by (simp add: IsRunning_def os_clientGet)

lemma os_isLMSCLIAvailable: "isLMSCLIAvailable (w\<lparr>GOOS := g\<rparr>) s = isLMSCLIAvailable w s"
  by (simp add: isLMSCLIAvailable_def os_runCommandContext)

lemma os_isModelLoaded: "isModelLoaded (w\<lparr>GOOS := g\<rparr>) m s = isModelLoaded w m s"
  by (simp add: isModelLoaded_def os_outputCommandContext)

lemma os_loadModel: "loadModel (w\<lparr>GOOS := g\<rparr>) m s = loadModel w m s"
  by (simp add: loadModel_def os_outputCommandContext)

lemma os_startServerWithCLI: "startServerWithCLI (w\<lparr>GOOS := g\<rparr>) s = startServerWithCLI w s"
  by (simp add: startServerWithCLI_def os_runCommand)

lemma os_waitLoop: "waitLoop (w\<lparr>GOOS := g\<rparr>) baseURL deadline s = waitLoop w baseURL deadline s"
proof (induction w baseURL deadline s rule: waitLoop.induct)
  case (1 w baseURL deadline s)
  show ?case
  proof (cases "now s < deadline")
    case False
    then show ?thesis
      by (simp add: waitLoop_late)
  next
    case True
    obtain b s1 where p: "IsRunning w baseURL s = (b, s1)"
      by (cases "IsRunning w baseURL s")
    show ?thesis
    proof (cases b)
      case True
      with \<open>now s < deadline\<close> p show ?thesis
        by (simp add: waitLoop_ready os_IsRunning)
    next
      case False
      with "1.IH" [OF True p [symmetric]]
      have "waitLoop (w\<lparr>GOOS := g\<rparr>) baseURL deadline (sleep (1 * Second) s1)
              = waitLoop w baseURL deadline (sleep (1 * Second) s1)"
        by simp
      with \<open>now s < deadline\<close> p False show ?thesis
        by (simp add: waitLoop_again os_IsRunning)
    qed
  qed
qed

lemma os_waitForServer: "waitForServer (w\<lparr>GOOS := g\<rparr>) baseURL t s = waitForServer w baseURL t s"
  by (simp add: waitForServer_def os_waitLoop)

lemma os_StartLMStudio: "StartLMStudio (w\<lparr>GOOS := g\<rparr>) s = StartLMStudio w s"
  unfolding StartLMStudio_def os_IsRunning os_isLMSCLIAvailable os_isModelLoaded
      os_loadModel os_startServerWithCLI os_waitForServer
  by (rule refl)

lemma isLMSCLIAvailable_trace:
  "isLMSCLIAvailable w s = (b, s') \<Longrightarrow> \<exists>r. trace s' = trace s @ [Exec [''lms'', ''version''] r]"
  by (auto simp: isLMSCLIAvailable_def runCommandContext_def emit_def advance_def Let_def
      split: prod.splits)

lemma startServerWithCLI_trace:
  "startServerWithCLI w s = (x, s') \<Longrightarrow>
   \<exists>r. trace s' = trace s @
          [Stdout ''Starting LM Studio server with `lms server start`...\<newline>'',
           Exec [''lms'', ''server'', ''start''] r]"
  by (auto simp: startServerWithCLI_def runCommand_def Println_def emit_def advance_def Let_def
      split: prod.splits if_splits)

lemma steps_after_start:
  assumes "IsRunning w defaultBaseURL s = (False, sa)"
    and "isLMSCLIAvailable w (Println ''LM Studio server is not running'' sa) = (True, s2)"
    and "startServerWithCLI w s2 = (r3, s3)"
  shows "steps s3 (snd (StartLMStudio w s))"
  unfolding StartLMStudio_def assms prod.case bool.case
  by (simp only: snd_conv | intro allI impI conjI | rule steps_refl
      | split bool.split | split sum.split | split prod.split | erule via)+

lemma steps_prefix: "steps s s' \<Longrightarrow> prefix (trace s) (trace s')"
  by (auto simp: steps_def)

lemma TrimSpace_Nil: "TrimSpace [] = []"
  by code_simp

text \<open>
  C2 (as the program has it). When the server does not answer the probe, \<open>StartLMStudio\<close>
  prints a line and checks for the \<open>lms\<close> command. If the command is there, the next
  thing \<open>StartLMStudio\<close> does is to run \<open>lms server start\<close>: the server is started
  headlessly. If it is not there, \<open>StartLMStudio\<close> launches nothing and returns the error
  ``LM Studio is not running and `lms` CLI is not available; please install LM Studio CLI
  or start the server manually'', having made the probe, printed the line and run the
  check, and no more. None of this depends on the platform.

  The earlier \<open>StartLMStudio\<close>, which does not know the \<open>lms\<close> command, is the one that
  launches the application: when the server does not answer and \<open>LM_STUDIO_CMD\<close> is not
  set, it returns ``start it manually on Windows'' on windows, and otherwise starts
  \<open>open -a "LM Studio"\<close> on darwin and \<open>lmstudio\<close> elsewhere.
\<close>

theorem StartLMStudio_unreachable:
  "(let s1 = Println ''LM Studio server is not running'' (snd (IsRunning w defaultBaseURL s));
        cli = isLMSCLIAvailable w s1
    in \<not> fst (IsRunning w defaultBaseURL s) \<longrightarrow>
         (fst cli \<longrightarrow>
            (\<exists>r. prefix (trace (snd cli) @
                          [Stdout ''Starting LM Studio server with `lms server start`...\<newline>'',
                           Exec [''lms'', ''server'', ''start''] r])
                        (trace (snd (StartLMStudio w s))))) \<and>
         (\<not> fst cli \<longrightarrow>
            StartLMStudio w s = (Inl CLIUnavailable, snd cli) \<and>
            (\<exists>r0 r1. trace (snd cli) = trace s @
                        [Get ''http://localhost:1234/v1/models'' r0,
                         Stdout ''LM Studio server is not running\<newline>'',
                         Exec [''lms'', ''version''] r1]))) \<and>
   StartLMStudio (w\<lparr>GOOS := os\<rparr>) s = StartLMStudio w s \<and>
   (\<not> fst (IsRunning w defaultBaseURL s) \<and> Getenv w ''LM_STUDIO_CMD'' = [] \<longrightarrow>
      (GOOS w = ''windows'' \<longrightarrow>
         StartLMStudio_launch w s =
           (Failed StartManuallyOnWindows, snd (IsRunning w defaultBaseURL s))) \<and>
      (GOOS w \<noteq> ''windows'' \<longrightarrow>
         (\<exists>ok. trace (snd (StartLMStudio_launch w s)) =
                  trace (snd (IsRunning w defaultBaseURL s)) @
                  [Start (if GOOS w = ''darwin'' then [''open'', ''-a'', ''LM Studio'']
                          else [''lmstudio'']) ok] \<and>
               fst (StartLMStudio_launch w s) = (if ok then Launched else Failed StartFailed))))"
proof -
  obtain x sa where p: "IsRunning w defaultBaseURL s = (x, sa)"
    by (cases "IsRunning w defaultBaseURL s")
  let ?s1 = "Println ''LM Studio server is not running'' sa"
  obtain c s2 where q: "isLMSCLIAvailable w ?s1 = (c, s2)"
    by (cases "isLMSCLIAvailable w ?s1")
  have A: "\<not> x \<longrightarrow>
         (c \<longrightarrow>
            (\<exists>r. prefix (trace s2 @
                          [Stdout ''Starting LM Studio server with `lms server start`...\<newline>'',
                           Exec [''lms'', ''server'', ''start''] r])
                        (trace (snd (StartLMStudio w s))))) \<and>
         (\<not> c \<longrightarrow>
            StartLMStudio w s = (Inl CLIUnavailable, s2) \<and>
            (\<exists>r0 r1. trace s2 = trace s @
                        [Get ''http://localhost:1234/v1/models'' r0,
                         Stdout ''LM Studio server is not running\<newline>'',
                         Exec [''lms'', ''version''] r1]))"
  proof (intro impI conjI)
    assume "\<not> x" and c
    obtain r3 s3 where st: "startServerWithCLI w s2 = (r3, s3)"
      by (cases "startServerWithCLI w s2")
    from startServerWithCLI_trace [OF st] obtain r where
      r: "trace s3 = trace s2 @
            [Stdout ''Starting LM Studio server with `lms server start`...\<newline>'',
             Exec [''lms'', ''server'', ''start''] r]"
      by blast
    from p q st \<open>\<not> x\<close> \<open>c\<close> have "steps s3 (snd (StartLMStudio w s))"
      using steps_after_start by simp
    then have "prefix (trace s3) (trace (snd (StartLMStudio w s)))"
      by (rule steps_prefix)
    with r show "\<exists>r. prefix (trace s2 @
                          [Stdout ''Starting LM Studio server with `lms server start`...\<newline>'',
                           Exec [''lms'', ''server'', ''start''] r])
                        (trace (snd (StartLMStudio w s)))"
      by auto
  next
    assume "\<not> x" and "\<not> c"
    with p q show "StartLMStudio w s = (Inl CLIUnavailable, s2)"
      by (simp add: StartLMStudio_def)
  next
    assume "\<not> x" and "\<not> c"
    from IsRunning_trace [OF p] obtain r0 where
      "trace sa = trace s @ [Get ''http://localhost:1234/v1/models'' r0]"
      by (auto simp: defaultBaseURL_def TrimRight_def)
    moreover from isLMSCLIAvailable_trace [OF q] obtain r1 where
      "trace s2 = trace ?s1 @ [Exec [''lms'', ''version''] r1]"
      by blast
    ultimately show "\<exists>r0 r1. trace s2 = trace s @
                        [Get ''http://localhost:1234/v1/models'' r0,
                         Stdout ''LM Studio server is not running\<newline>'',
                         Exec [''lms'', ''version''] r1]"
      by (auto simp: Println_def emit_def)
  qed
  have A': "let s1 = Println ''LM Studio server is not running'' (snd (IsRunning w defaultBaseURL s));
        cli = isLMSCLIAvailable w s1
    in \<not> fst (IsRunning w defaultBaseURL s) \<longrightarrow>
         (fst cli \<longrightarrow>
            (\<exists>r. prefix (trace (snd cli) @
                          [Stdout ''Starting LM Studio server with `lms server start`...\<newline>'',
                           Exec [''lms'', ''server'', ''start''] r])
                        (trace (snd (StartLMStudio w s))))) \<and>
         (\<not> fst cli \<longrightarrow>
            StartLMStudio w s = (Inl CLIUnavailable, snd cli) \<and>
            (\<exists>r0 r1. trace (snd cli) = trace s @
                        [Get ''http://localhost:1234/v1/models'' r0,
                         Stdout ''LM Studio server is not running\<newline>'',
                         Exec [''lms'', ''version''] r1]))"
    using A unfolding Let_def p q fst_conv snd_conv .
  have C: "\<not> fst (IsRunning w defaultBaseURL s) \<and> Getenv w ''LM_STUDIO_CMD'' = [] \<longrightarrow>
      (GOOS w = ''windows'' \<longrightarrow>
         StartLMStudio_launch w s =
           (Failed StartManuallyOnWindows, snd (IsRunning w defaultBaseURL s))) \<and>
      (GOOS w \<noteq> ''windows'' \<longrightarrow>
         (\<exists>ok. trace (snd (StartLMStudio_launch w s)) =
                  trace (snd (IsRunning w defaultBaseURL s)) @
                  [Start (if GOOS w = ''darwin'' then [''open'', ''-a'', ''LM Studio'']
                          else [''lmstudio'']) ok] \<and>
               fst (StartLMStudio_launch w s) = (if ok then Launched else Failed StartFailed)))"
    using p by (auto simp: StartLMStudio_launch_def TrimSpace_Nil Let_def emit_def)
  from A' os_StartLMStudio [where w = w and g = os and s = s] C show ?thesis by blast
qed


lemma macWorld_probe:
  "IsRunning (macWorld\<lparr>GOOS := os\<rparr>) defaultBaseURL start0 =
     (False, \<lparr>now = 1000, trace = [Get ''http://localhost:1234/v1/models'' NetError]\<rparr>)"
  by (simp add: run_defs macWorld_def probeWorld_def start0_def)

lemma macWorld_cli:
  "isLMSCLIAvailable (macWorld\<lparr>GOOS := os\<rparr>) (Println ''LM Studio server is not running''
       \<lparr>now = 1000, trace = [Get ''http://localhost:1234/v1/models'' NetError]\<rparr>) =
     (False, \<lparr>now = 1000,
        trace = [Get ''http://localhost:1234/v1/models'' NetError,
                 Stdout ''LM Studio server is not running\<newline>'',
                 Exec [''lms'', ''version''] \<lparr>failed = True, out = [], diag = []\<rparr>]\<rparr>)"
  by (simp add: run_defs macWorld_def probeWorld_def)

theorem StartLMStudio_unreachable_witness:
  "\<not> fst (IsRunning macWorld defaultBaseURL start0) \<and>
   StartLMStudio (macWorld\<lparr>GOOS := ''linux''\<rparr>) start0 =
     (Inl CLIUnavailable,
      \<lparr>now = 1000,
       trace = [Get ''http://localhost:1234/v1/models'' NetError,
                Stdout ''LM Studio server is not running\<newline>'',
                Exec [''lms'', ''version''] \<lparr>failed = True, out = [], diag = []\<rparr>]\<rparr>) \<and>
   StartLMStudio_launch (macWorld\<lparr>GOOS := ''windows''\<rparr>) start0 =
     (Failed StartManuallyOnWindows,
      \<lparr>now = 1000, trace = [Get ''http://localhost:1234/v1/models'' NetError]\<rparr>) \<and>
   (\<exists>ok. trace (snd (StartLMStudio_launch macWorld start0)) =
           [Get ''http://localhost:1234/v1/models'' NetError,
            Start [''open'', ''-a'', ''LM Studio''] ok]) \<and>
   fst (isLMSCLIAvailable
      (cliWorld (upAfter 7) \<lparr>failed = False, out = ''qwen/qwen3-4b-2507'', diag = []\<rparr>
         \<lparr>failed = False, out = [], diag = []\<rparr>)
      (Println ''LM Studio server is not running''
         \<lparr>now = 1000, trace = [Get ''http://localhost:1234/v1/models'' NetError]\<rparr>)) \<and>
   prefix
     [Get ''http://localhost:1234/v1/models'' NetError,
      Stdout ''LM Studio server is not running\<newline>'',
      Exec [''lms'', ''version''] \<lparr>failed = False, out = [], diag = []\<rparr>,
      Stdout ''Starting LM Studio server with `lms server start`...\<newline>'',
      Exec [''lms'', ''server'', ''start''] \<lparr>failed = False, out = [], diag = []\<rparr>]
     (trace (snd (StartLMStudio
        (cliWorld (upAfter 7) \<lparr>failed = False, out = ''qwen/qwen3-4b-2507'', diag = []\<rparr>
           \<lparr>failed = False, out = [], diag = []\<rparr>) start0)))"
proof -
  let ?up = "cliWorld (upAfter 7) \<lparr>failed = False, out = ''qwen/qwen3-4b-2507'', diag = []\<rparr>
          \<lparr>failed = False, out = [], diag = []\<rparr>"
  have m0: "macWorld\<lparr>GOOS := ''darwin''\<rparr> = macWorld"
    by (simp add: macWorld_def)
  have e: "\<And>os. Getenv (macWorld\<lparr>GOOS := os\<rparr>) ''LM_STUDIO_CMD'' = []"
    by (simp add: macWorld_def probeWorld_def)
  have u1: "IsRunning ?up defaultBaseURL start0 =
              (False, \<lparr>now = 1000, trace = [Get ''http://localhost:1234/v1/models'' NetError]\<rparr>)"
    by (simp add: run_defs cliWorld_def upAfter_def start0_def)
  have u2: "isLMSCLIAvailable ?up (Println ''LM Studio server is not running''
              \<lparr>now = 1000, trace = [Get ''http://localhost:1234/v1/models'' NetError]\<rparr>) =
              (True, \<lparr>now = 2000,
                 trace = [Get ''http://localhost:1234/v1/models'' NetError,
                          Stdout ''LM Studio server is not running\<newline>'',
                          Exec [''lms'', ''version''] \<lparr>failed = False, out = [], diag = []\<rparr>]\<rparr>)"
    by (simp add: run_defs cliWorld_def)
  from StartLMStudio_unreachable [of "macWorld\<lparr>GOOS := ''linux''\<rparr>" start0 "''linux''"]
    macWorld_probe [of "''linux''"] macWorld_cli [of "''linux''"]
  have a: "StartLMStudio (macWorld\<lparr>GOOS := ''linux''\<rparr>) start0 =
     (Inl CLIUnavailable,
      \<lparr>now = 1000,
       trace = [Get ''http://localhost:1234/v1/models'' NetError,
                Stdout ''LM Studio server is not running\<newline>'',
                Exec [''lms'', ''version''] \<lparr>failed = True, out = [], diag = []\<rparr>]\<rparr>)"
    by (simp add: Let_def)
  from StartLMStudio_unreachable [of "macWorld\<lparr>GOOS := ''windows''\<rparr>" start0 "''windows''"]
    macWorld_probe [of "''windows''"] e [of "''windows''"]
  have b: "StartLMStudio_launch (macWorld\<lparr>GOOS := ''windows''\<rparr>) start0 =
     (Failed StartManuallyOnWindows,
      \<lparr>now = 1000, trace = [Get ''http://localhost:1234/v1/models'' NetError]\<rparr>)"
    by (simp add: Let_def)
  from StartLMStudio_unreachable [of ?up start0 "''linux''"] u1 u2 run_up
  have c: "prefix
     [Get ''http://localhost:1234/v1/models'' NetError,
      Stdout ''LM Studio server is not running\<newline>'',
      Exec [''lms'', ''version''] \<lparr>failed = False, out = [], diag = []\<rparr>,
      Stdout ''Starting LM Studio server with `lms server start`...\<newline>'',
      Exec [''lms'', ''server'', ''start''] \<lparr>failed = False, out = [], diag = []\<rparr>]
     (trace (snd (StartLMStudio ?up start0)))"
    by (simp add: Let_def)
  have g: "GOOS macWorld = ''darwin''"
    by (simp add: macWorld_def)
  from StartLMStudio_unreachable [of macWorld start0 "''darwin''"]
    macWorld_probe [of "''darwin''"] e [of "''darwin''"] m0 g
  have d: "\<exists>ok. trace (snd (StartLMStudio_launch macWorld start0)) =
           [Get ''http://localhost:1234/v1/models'' NetError,
            Start [''open'', ''-a'', ''LM Studio''] ok]"
    by (auto simp: Let_def)
  from a b c d u2 macWorld_probe [of "''darwin''"] m0 show ?thesis
    by simp
qed

text \<open>
  On darwin, without the \<open>lms\<close> command, \<open>StartLMStudio\<close> returns the error and starts no
  process, although the platform has a known way to launch the application: the earlier
  version starts it in the same world.
\<close>

theorem no_launch_without_cli:
  "GOOS macWorld = ''darwin'' \<and>
   StartLMStudio macWorld start0 =
     (Inl CLIUnavailable,
      \<lparr>now = 1000,
       trace = [Get ''http://localhost:1234/v1/models'' NetError,
                Stdout ''LM Studio server is not running\<newline>'',
                Exec [''lms'', ''version''] \<lparr>failed = True, out = [], diag = []\<rparr>]\<rparr>) \<and>
   StartLMStudio_launch macWorld start0 =
     (Launched,
      \<lparr>now = 1000,
       trace = [Get ''http://localhost:1234/v1/models'' NetError,
                Start [''open'', ''-a'', ''LM Studio''] True]\<rparr>)"
  by (simp add: run_defs StartLMStudio_launch_def TrimSpace_Nil macWorld_def probeWorld_def
      start0_def)


end
